theory Spec2Isabelle
  imports Main
begin

section \<open>Strings\<close>

text \<open>
  Python strings are modelled as \<^typ>\<open>string\<close> (lists of 8-bit characters), so
  the model covers ASCII text: \<open>lower\<close> lowers the ASCII letters, \<open>\d\<close> is the ASCII
  digits and white space is the ASCII white space of \<open>str.isspace\<close>.
\<close>

definition startswith :: "string \<Rightarrow> string \<Rightarrow> bool" where
  "startswith s p = (take (length p) s = p)"

definition endswith :: "string \<Rightarrow> string \<Rightarrow> bool" where
  "endswith s p = (length p \<le> length s \<and> drop (length s - length p) s = p)"

text \<open>\<open>contains p s\<close> is Python's \<open>p in s\<close>.\<close>

fun contains :: "string \<Rightarrow> string \<Rightarrow> bool" where
  "contains p [] = (p = [])"
| "contains p (c # s) = (startswith (c # s) p \<or> contains p s)"

text \<open>\<open>url.startswith(("http://", "https://"))\<close>\<close>

definition is_absolute :: "string \<Rightarrow> bool" where
  "is_absolute u = (startswith u ''http://'' \<or> startswith u ''https://'')"

definition lower_char :: "char \<Rightarrow> char" where
  "lower_char c =
     (let n = (of_char c :: nat) in if 65 \<le> n \<and> n \<le> 90 then char_of (n + 32) else c)"

definition lower :: "string \<Rightarrow> string" where
  "lower s = map lower_char s"

definition is_digit :: "char \<Rightarrow> bool" where
  "is_digit c = (let n = (of_char c :: nat) in 48 \<le> n \<and> n \<le> 57)"

definition is_space :: "char \<Rightarrow> bool" where
  "is_space c = (let n = (of_char c :: nat) in (9 \<le> n \<and> n \<le> 13) \<or> (28 \<le> n \<and> n \<le> 32))"

text \<open>\<open>s.strip(chars)\<close> and \<open>s.strip()\<close>\<close>

definition strip_chars :: "string \<Rightarrow> string \<Rightarrow> string" where
  "strip_chars cs s = rev (dropWhile (\<lambda>c. c \<in> set cs) (rev (dropWhile (\<lambda>c. c \<in> set cs) s)))"

definition strip_space :: "string \<Rightarrow> string" where
  "strip_space s = rev (dropWhile is_space (rev (dropWhile is_space s)))"

text \<open>\<open>s.split(sep)[0]\<close> for a one-character separator\<close>

definition split_first :: "char \<Rightarrow> string \<Rightarrow> string" where
  "split_first sep s = takeWhile (\<lambda>c. c \<noteq> sep) s"

text \<open>
  \<open>re.search(key + r'=(\d+)', s)\<close>: the match, if any, is at the first place where
  \<open>key=\<close> is followed by a digit; group 1 is the run of digits there.
\<close>

fun search_key_digits :: "string \<Rightarrow> string \<Rightarrow> string option" where
  "search_key_digits key [] = None"
| "search_key_digits key (c # s) =
     (let rest = drop (length key + 1) (c # s) in
      if startswith (c # s) (key @ ''='') \<and> rest \<noteq> [] \<and> is_digit (hd rest)
      then Some (takeWhile is_digit rest)
      else search_key_digits key s)"

section \<open>sanitize\_filename\<close>

text \<open>The character class \<open>[\\/*?:"<>|]\<close> of the substitution.\<close>

definition problematic :: "char set" where
  "problematic = {CHR 0x5C, CHR ''/'', CHR ''*'', CHR ''?'', CHR '':'', CHR 0x22,
                  CHR ''<'', CHR ''>'', CHR ''|''}"

text \<open>
  \<^verbatim>\<open>s = re.sub(r'[\\/*?:"<>|]', "_", filename)\<close>, then
  \<^verbatim>\<open>return s.strip(". ")[0:100]\<close>: the strip comes first, the cut second.
\<close>

definition sanitize_filename :: "string \<Rightarrow> string" where
  "sanitize_filename filename =
     (let s = map (\<lambda>c. if c \<in> problematic then CHR ''_'' else c) filename
      in take 100 (strip_chars ''. '' s))"

section \<open>Paths (posixpath)\<close>

definition basename :: "string \<Rightarrow> string" where
  "basename p = rev (takeWhile (\<lambda>c. c \<noteq> CHR ''/'') (rev p))"

text \<open>
  \<open>os.path.dirname\<close>: everything up to the last slash, with the trailing slashes
  removed unless nothing but slashes is left.
\<close>

definition dirname :: "string \<Rightarrow> string" where
  "dirname p =
     (let h = take (length p - length (basename p)) p
      in if h \<noteq> [] \<and> \<not> list_all (\<lambda>c. c = CHR ''/'') h
         then rev (dropWhile (\<lambda>c. c = CHR ''/'') (rev h)) else h)"

definition join :: "string \<Rightarrow> string \<Rightarrow> string" where
  "join a b =
     (if startswith b ''/'' then b
      else if a = [] \<or> endswith a ''/'' then a @ b
      else a @ ''/'' @ b)"

text \<open>
  The extension of \<open>os.path.splitext\<close>: it starts at the last dot of the last path
  component, and is empty when there is no dot there or only dots stand before it.
\<close>

definition splitext_ext :: "string \<Rightarrow> string" where
  "splitext_ext p =
     (let b = basename p;
          e = rev (takeWhile (\<lambda>c. c \<noteq> CHR ''.'') (rev b));
          stem = take (length b - length e - 1) b
      in if CHR ''.'' \<in> set b \<and> \<not> list_all (\<lambda>c. c = CHR ''.'') stem then CHR ''.'' # e else [])"

text \<open>\<open>str(n)\<close> for a natural number, and \<open>s.split(sep)\<close>.\<close>

fun show_nat :: "nat \<Rightarrow> string" where
  "show_nat n =
     (if n < 10 then [char_of (48 + n)] else show_nat (n div 10) @ [char_of (48 + n mod 10)])"


text \<open>
  The first match of \<^verbatim>\<open>re.findall('filename="(.+?)"', cd)\<close>: after
  \<^verbatim>\<open>filename="\<close> one character that is no newline, then as few characters as
  possible up to a closing quote on the same line.
\<close>

fun cd_filename :: "string \<Rightarrow> string option" where
  "cd_filename [] = None"
| "cd_filename (c # s) =
     (let rest = drop 10 (c # s);
          t = takeWhile (\<lambda>x. x \<noteq> CHR 0x22 \<and> x \<noteq> CHR 0x0A) (tl rest)
      in if startswith (c # s) (''filename='' @ [CHR 0x22]) \<and> rest \<noteq> [] \<and> hd rest \<noteq> CHR 0x0A
            \<and> startswith (drop (length t) (tl rest)) [CHR 0x22]
         then Some (hd rest # t)
         else cd_filename s)"

text \<open>The truth value of an optional string: \<open>None\<close> and \<open>''\<close> are false.\<close>

definition truthy :: "string option \<Rightarrow> bool" where
  "truthy x = (x \<noteq> None \<and> x \<noteq> Some [])"

section \<open>Outcomes, documents, the environment and the world\<close>

text \<open>
  A call returns or raises. \<open>Error\<close> stands for every exception that
  \<open>except Exception\<close> catches; \<open>SystemExit\<close>, raised by \<open>sys.exit(1)\<close> in \<open>login\<close>,
  is not one of them.
\<close>

datatype exn = Error | SystemExit

datatype 'a res = Return 'a | Raise exn

text \<open>
  HTML parsing belongs to BeautifulSoup. A parsed document is modelled by the answers to
  the queries the program makes on it, each in document order.
\<close>

record link =
  href :: string
  link_text :: string

record document =
  doc_title :: "string option"
  doc_links :: "link list"
  doc_cards :: "(link option \<times> string option) list"
  doc_sections :: "(string option \<times> link list) list"
  doc_download_sel :: "string option list"
  doc_embeds :: "(string \<times> string option) list"
  doc_media :: "string list"
  doc_scripts :: "string option list"
  doc_alt_sel :: "string option list"
  doc_meta_course_id :: "string option list"
  doc_description :: "string option"

text \<open>
  \<^descr>[\<open>doc_title\<close>] the string of the title element
  \<^descr>[\<open>doc_links\<close>] \<open>find_all("a", href=True)\<close>: the href and \<open>get_text(strip=True)\<close>
  \<^descr>[\<open>doc_cards\<close>] \<open>select(".dashboard-card, .coursebox, .course-info-container")\<close>: of
    each card its first link with an href and the text of its name element
  \<^descr>[\<open>doc_sections\<close>] \<open>select("li.section, div.section, .topics .topic")\<close>: of each
    section the text of its name element and the links inside it
  \<^descr>[\<open>doc_download_sel\<close>] the href attributes of
    \<open>select("a.downloadbutton, .resourceworkaround a, .resourcecontent a")\<close>
  \<^descr>[\<open>doc_embeds\<close>] \<open>find_all(['iframe', 'embed', 'object'], src=True)\<close>: src and data
  \<^descr>[\<open>doc_media\<close>] \<open>find_all(['source', 'video', 'audio'], src=True)\<close>: src
  \<^descr>[\<open>doc_scripts\<close>] \<open>find_all("script")\<close>: the \<open>string\<close> of each
  \<^descr>[\<open>doc_alt_sel\<close>] the hrefs of \<open>select(".resourcelinkdetails a, .urlworkaround a")\<close>
  \<^descr>[\<open>doc_meta_course_id\<close>] the content attributes of the \<open>meta\<close> tags named course-id
  \<^descr>[\<open>doc_description\<close>] the stripped text of
    \<open>select_one(".assignmentinfo, .descriptionbox, .assign-intro")\<close>
\<close>

text \<open>
  A response of the portal. The headers are keyed by lower-case names, as in the
  case-insensitive dictionary of \<open>requests\<close>. The body arrives in \<open>chunks\<close>; when
  \<open>broken\<close>, reading it raises after the last chunk.
\<close>

record response =
  status_code :: nat
  headers :: "string \<rightharpoonup> string"
  chunks :: "string list"
  broken :: bool

definition header :: "(string \<rightharpoonup> string) \<Rightarrow> string \<Rightarrow> string option" where
  "header h k = h (lower k)"

definition body_text :: "response \<Rightarrow> string" where
  "body_text r = concat (chunks r)"

text \<open>
  Everything the program is given: the fields of \<open>self\<close>, the user's answer to the
  course prompt, the library functions it calls (\<open>urllib.parse\<close>, \<open>mimetypes\<close>, \<open>int\<close>,
  \<open>re.findall\<close>, BeautifulSoup), the portal and the file system's permissions. The
  portal's answer to a request may depend on \<open>n\<close>, the number of entries of \<open>reqs\<close>
  before it (\<open>None\<close>: the request raises); \<open>srv_head\<close> gives the final URL after
  redirects, \<open>srv_get\<close> takes \<open>allow_redirects\<close>. \<open>base_url\<close> is the URL after
  \<open>rstrip('/')\<close>.
\<close>

record env =
  base_url :: string
  download_dir :: string
  force_download :: bool
  selection :: string
  urljoin :: "string \<Rightarrow> string \<Rightarrow> string"
  urlparse_path :: "string \<Rightarrow> string"
  unquote :: "string \<Rightarrow> string"
  query_id :: "string \<Rightarrow> string option"
  guess_extension :: "string \<Rightarrow> string option"
  py_int :: "string \<Rightarrow> int option"
  findall :: "string \<Rightarrow> string \<Rightarrow> string list"
  soup :: "string \<Rightarrow> document"
  srv_head :: "nat \<Rightarrow> string \<Rightarrow> string option"
  srv_get :: "nat \<Rightarrow> bool \<Rightarrow> string \<Rightarrow> response option"
  srv_post :: "nat \<Rightarrow> string \<Rightarrow> response option"
  fs_makedirs :: "string \<Rightarrow> bool"
  fs_open :: "string \<Rightarrow> bool"
  fs_listdir :: "string \<Rightarrow> nat option"

text \<open>
  \<open>query_id url\<close> is \<open>parse_qs(urlparse(url).query)['id'][0]\<close> when \<open>id\<close> is a
  key; \<open>py_int\<close> is \<open>int\<close> on a string (\<open>None\<close>: ValueError); \<open>fs_listdir\<close> is
  \<open>len(os.listdir(d))\<close>.

  The world the program changes: the regular files with their contents, the requests
  sent so far (\<open>Body\<close>: a response body was read) and the messages passed to \<open>self.log\<close>,
  each as its fixed text and the values put into it.
\<close>

datatype request = Head string | Get string | Post string | Body string

type_synonym msg = "string \<times> string list"

record world =
  files :: "string \<rightharpoonup> string"
  reqs :: "request list"
  logged :: "msg list"

definition say :: "msg \<Rightarrow> world \<Rightarrow> world" where
  "say m w = w\<lparr>logged := logged w @ [m]\<rparr>"

definition sent :: "request list \<Rightarrow> world \<Rightarrow> world" where
  "sent rs w = w\<lparr>reqs := reqs w @ rs\<rparr>"

definition http_head :: "env \<Rightarrow> string \<Rightarrow> world \<Rightarrow> string option \<times> world" where
  "http_head E url w = (srv_head E (length (reqs w)) url, sent [Head url] w)"

text \<open>
  \<open>session.get\<close>: with \<open>stream=True\<close> only the headers are read; otherwise the body
  is read at once, and a broken body makes the call raise.
\<close>

definition http_get :: "env \<Rightarrow> bool \<Rightarrow> bool \<Rightarrow> string \<Rightarrow> world \<Rightarrow> response option \<times> world" where
  "http_get E stream allow_redirects url w =
     (case srv_get E (length (reqs w)) allow_redirects url of
        None \<Rightarrow> (None, sent [Get url] w)
      | Some r \<Rightarrow>
          if stream then (Some r, sent [Get url] w)
          else if broken r then (None, sent [Get url, Body url] w)
          else (Some r, sent [Get url, Body url] w))"

definition http_post :: "env \<Rightarrow> string \<Rightarrow> world \<Rightarrow> response option \<times> world" where
  "http_post E url w =
     (case srv_post E (length (reqs w)) url of
        None \<Rightarrow> (None, sent [Post url] w)
      | Some r \<Rightarrow> if broken r then (None, sent [Post url, Body url] w)
                  else (Some r, sent [Post url, Body url] w))"

text \<open>\<^verbatim>\<open>if not url.startswith(("http://", "https://")): url = urljoin(self.base_url, url)\<close>\<close>

definition absolute :: "env \<Rightarrow> string \<Rightarrow> string" where
  "absolute E url = (if is_absolute url then url else urljoin E (base_url E) url)"

text \<open>
  The handler \<open>except Exception\<close>: it runs on \<open>Error\<close> and lets \<open>SystemExit\<close> pass.
\<close>

definition except_Exception ::
  "'a res \<times> world \<Rightarrow> (world \<Rightarrow> 'a res \<times> world) \<Rightarrow> 'a res \<times> world" where
  "except_Exception r handler = (case r of (Raise Error, w) \<Rightarrow> handler w | _ \<Rightarrow> r)"

section \<open>get\_file\_extension\<close>

definition common_formats :: "(string \<times> string) list" where
  "common_formats =
     [(''pdf'', ''.pdf''), (''docx'', ''.docx''), (''doc'', ''.doc''), (''pptx'', ''.pptx''),
      (''ppt'', ''.ppt''), (''xlsx'', ''.xlsx''), (''xls'', ''.xls''), (''txt'', ''.txt''),
      (''rtf'', ''.rtf''), (''odt'', ''.odt''), (''ods'', ''.ods''), (''odp'', ''.odp''),
      (''jpg'', ''.jpg''), (''jpeg'', ''.jpeg''), (''png'', ''.png''), (''gif'', ''.gif''),
      (''svg'', ''.svg''), (''bmp'', ''.bmp''), (''tiff'', ''.tiff''), (''tif'', ''.tif''),
      (''mp3'', ''.mp3''), (''wav'', ''.wav''), (''aac'', ''.aac''), (''flac'', ''.flac''),
      (''ogg'', ''.ogg''), (''m4a'', ''.m4a''), (''mp4'', ''.mp4''), (''mov'', ''.mov''),
      (''avi'', ''.avi''), (''wmv'', ''.wmv''), (''webm'', ''.webm''), (''mkv'', ''.mkv''),
      (''flv'', ''.flv''), (''m4v'', ''.m4v''), (''zip'', ''.zip''), (''rar'', ''.rar''),
      (''7z'', ''.7z''), (''tar'', ''.tar''), (''gz'', ''.gz''), (''tgz'', ''.tgz''),
      (''py'', ''.py''), (''java'', ''.java''), (''html'', ''.html''), (''htm'', ''.htm''),
      (''css'', ''.css''), (''js'', ''.js''), (''php'', ''.php''), (''sql'', ''.sql''),
      (''r'', ''.r''), (''m'', ''.m''), (''c'', ''.c''), (''cpp'', ''.cpp''), (''h'', ''.h''),
      (''ipynb'', ''.ipynb''), (''tex'', ''.tex''), (''epub'', ''.epub''),
      (''mobi'', ''.mobi''), (''srt'', ''.srt''), (''vtt'', ''.vtt''), (''xml'', ''.xml''),
      (''json'', ''.json''), (''csv'', ''.csv''), (''mm'', ''.mm''), (''xmind'', ''.xmind''),
      (''h5p'', ''.h5p''), (''psd'', ''.psd''), (''ai'', ''.ai''), (''dwg'', ''.dwg''),
      (''dxf'', ''.dxf''), (''mus'', ''.mus''), (''sib'', ''.sib''), (''cdx'', ''.cdx''),
      (''ggb'', ''.ggb'')]"

text \<open>Priority 1: the extension of the original filename, when there is one.\<close>

definition ext_of_original :: "string option \<Rightarrow> string" where
  "ext_of_original original_filename =
     (case original_filename of None \<Rightarrow> [] | Some f \<Rightarrow> if f = [] then [] else splitext_ext f)"

text \<open>Priority 2: the extension of the last component of the unquoted URL path.\<close>

definition ext_of_url :: "env \<Rightarrow> string \<Rightarrow> string" where
  "ext_of_url E url = splitext_ext (basename (unquote E (urlparse_path E url)))"

text \<open>
  Priority 3: \<open>mimetypes.guess_extension\<close> on the content type up to the first
  semicolon, stripped.
\<close>

definition ext_of_content_type :: "env \<Rightarrow> (string \<rightharpoonup> string) option \<Rightarrow> string option" where
  "ext_of_content_type E response_headers =
     (case response_headers of
        None \<Rightarrow> None
      | Some h \<Rightarrow>
          (case header h ''Content-Type'' of
             None \<Rightarrow> None
           | Some v \<Rightarrow> guess_extension E (strip_space (split_first CHR '';'' v))))"

definition get_file_extension ::
  "env \<Rightarrow> string \<Rightarrow> (string \<rightharpoonup> string) option \<Rightarrow> string option \<Rightarrow> string" where
  "get_file_extension E url response_headers original_filename =
     (if ext_of_original original_filename \<noteq> [] then ext_of_original original_filename
      else if ext_of_url E url \<noteq> [] \<and> length (ext_of_url E url) \<le> 10 then ext_of_url E url
      else if truthy (ext_of_content_type E response_headers)
        then the (ext_of_content_type E response_headers)
      else if search_key_digits ''pdf'' url \<noteq> None then ''.pdf''
      else if search_key_digits ''doc'' url \<noteq> None then ''.doc''
      else (case find (\<lambda>(format_name, extension). contains format_name (lower url)) common_formats of
              Some (format_name, extension) \<Rightarrow> extension
            | None \<Rightarrow> ''.bin''))"

section \<open>login\<close>

text \<open>
  \<open>login\<close> fetches the login page, posts the form and looks for the markers of a
  login page in the answer. The token, the credentials and the prompts for them are
  not modelled: the portal's answer is given by the environment.
\<close>

definition login :: "env \<Rightarrow> world \<Rightarrow> bool res \<times> world" where
  "login E w =
     (let login_url = urljoin E (base_url E) ''/login/index.php'' in
      case http_get E False True login_url w of
        (None, w1) \<Rightarrow> (Raise Error, w1)
      | (Some page, w1) \<Rightarrow>
          (case http_post E login_url w1 of
             (None, w2) \<Rightarrow> (Raise Error, w2)
           | (Some response, w2) \<Rightarrow>
               if list_ex (\<lambda>x. contains x (body_text response))
                    [''Log in to the site'', ''loginform'', ''Login to your account'']
               then (Raise SystemExit, say (''Login failed. Please check your credentials.'', []) w2)
               else (Return True, say (''Login successful!'', []) w2)))"

section \<open>download\_file\<close>

text \<open>
  Lines 308 to 326: the name under which the file is stored and the original filename.
\<close>

definition resolve_filename :: "env \<Rightarrow> string \<Rightarrow> response \<Rightarrow> string option \<Rightarrow> string \<times> string option" where
  "resolve_filename E url response filename =
     (if truthy filename then (the filename, None)
      else
        let original_filename =
              (case header (headers response) ''Content-Disposition'' of
                 None \<Rightarrow> basename (urlparse_path E url)
               | Some cd \<Rightarrow>
                   (case cd_filename cd of
                      Some f \<Rightarrow> f
                    | None \<Rightarrow> basename (urlparse_path E url)))
        in (split_first CHR ''?'' original_filename, Some original_filename))"

text \<open>
  Lines 328 to 335: the extension that is appended when the name has none, or only a
  dot; \<open>None\<close> when nothing is appended.
\<close>

definition added_extension :: "env \<Rightarrow> string \<Rightarrow> response \<Rightarrow> string option \<Rightarrow> string option" where
  "added_extension E url response filename =
     (let (fname, original_filename) = resolve_filename E url response filename;
          ext = splitext_ext fname
      in if ext = [] \<or> length ext \<le> 1 then
           (let new_ext = get_file_extension E url (Some (headers response)) original_filename
            in if new_ext \<noteq> [] then Some new_ext else None)
         else None)"

definition final_filename :: "env \<Rightarrow> string \<Rightarrow> response \<Rightarrow> string option \<Rightarrow> string" where
  "final_filename E url response filename =
     (case added_extension E url response filename of
        None \<Rightarrow> fst (resolve_filename E url response filename)
      | Some new_ext \<Rightarrow> fst (resolve_filename E url response filename) @ new_ext)"

text \<open>Line 335: the message that an extension was added.\<close>

definition note_extension :: "env \<Rightarrow> string \<Rightarrow> response \<Rightarrow> string option \<Rightarrow> world \<Rightarrow> world" where
  "note_extension E url response filename w =
     (if added_extension E url response filename = None then w
      else say (''Added extension to file: '', [final_filename E url response filename]) w)"

text \<open>Line 338: \<open>full_path\<close>.\<close>

definition target_path :: "env \<Rightarrow> string \<Rightarrow> string \<Rightarrow> string option \<Rightarrow> response \<Rightarrow> string" where
  "target_path E url path filename response =
     join path (sanitize_filename (final_filename E url response filename))"

text \<open>\<^verbatim>\<open>int(response.headers.get('content-length', 0))\<close>\<close>

definition content_length :: "env \<Rightarrow> response \<Rightarrow> int res" where
  "content_length E response =
     (case header (headers response) ''content-length'' of
        None \<Rightarrow> Return 0
      | Some v \<Rightarrow> (case py_int E v of None \<Rightarrow> Raise Error | Some n \<Rightarrow> Return n))"

text \<open>
  Lines 360 to 383: the empty-file check and the transfer. \<open>open(full_path, 'wb')\<close>
  empties the file; every chunk is then appended.
\<close>

definition transfer ::
  "env \<Rightarrow> string \<Rightarrow> response \<Rightarrow> string \<Rightarrow> string \<Rightarrow> world \<Rightarrow> string option res \<times> world" where
  "transfer E url response fname full_path w =
     (case content_length E response of
        Raise e \<Rightarrow> (Raise e, w)
      | Return total_size \<Rightarrow>
          if total_size = 0 then (Return None, say (''Skipping empty file: '', [fname]) w)
          else if \<not> fs_open E full_path then (Raise Error, w)
          else
            (let w1 = sent [Body url] (w\<lparr>files := (files w)(full_path \<mapsto> concat (chunks response))\<rparr>)
             in if broken response then (Raise Error, w1) else (Return (Some full_path), w1)))"

text \<open>Lines 343 to 358: the check of an existing file, then the transfer.\<close>

definition store ::
  "env \<Rightarrow> string \<Rightarrow> response \<Rightarrow> string \<Rightarrow> string \<Rightarrow> world \<Rightarrow> string option res \<times> world" where
  "store E url response fname full_path w =
     (case files w full_path of
        None \<Rightarrow> transfer E url response fname full_path w
      | Some existing \<Rightarrow>
          if \<not> force_download E \<and> length existing > 0 then
            (case content_length E response of
               Raise e \<Rightarrow> (Raise e, w)
             | Return expected_size \<Rightarrow>
                 if expected_size = 0 \<or> \<bar>int (length existing) - expected_size\<bar> < 100
                 then (Return (Some full_path),
                       say (''Skipping existing file: '', [fname, show_nat (length existing)]) w)
                 else transfer E url response fname full_path
                        (say (''File exists but size differs. Re-downloading: '', [fname]) w))
          else transfer E url response fname full_path w)"

text \<open>Lines 305 to 383, inside the \<open>try\<close>: from the streaming request on.\<close>

definition fetch_and_store ::
  "env \<Rightarrow> string \<Rightarrow> string \<Rightarrow> string option \<Rightarrow> world \<Rightarrow> string option res \<times> world" where
  "fetch_and_store E url path filename w =
     (case http_get E True True url w of
        (None, w1) \<Rightarrow> (Raise Error, w1)
      | (Some response, w1) \<Rightarrow>
          (let fname = final_filename E url response filename;
               w2 = note_extension E url response filename w1;
               full_path = target_path E url path filename response
           in if \<not> fs_makedirs E (dirname full_path) then (Raise Error, w2)
              else store E url response fname full_path w2))"

text \<open>
  Line 300: the session has expired when the probe ended on a login page although
  the requested URL is none.
\<close>

definition is_expired_response :: "string \<Rightarrow> string \<Rightarrow> bool" where
  "is_expired_response final_url url = (contains ''login'' final_url \<and> \<not> contains ''login'' url)"

text \<open>
  \<open>download_file\<close> calls itself after a new login, with no count of the calls. Its
  first argument is the number of nested calls the interpreter still allows; at 0 the
  call raises RecursionError, an \<open>Exception\<close>, which the handler turns into \<open>None\<close>.
  The handler catches every \<open>Error\<close> of the body; the \<open>SystemExit\<close> of a rejected
  login passes through it.
\<close>

fun download_file ::
  "env \<Rightarrow> nat \<Rightarrow> string \<Rightarrow> string \<Rightarrow> string option \<Rightarrow> world \<Rightarrow> string option res \<times> world" where
  "download_file E 0 url path filename w =
     (Return None, say (''Error downloading '', [absolute E url]) w)"
| "download_file E (Suc depth) url path filename w =
     (case http_head E (absolute E url) w of
        (None, w1) \<Rightarrow> (Return None, say (''Error downloading '', [absolute E url]) w1)
      | (Some final_url, w1) \<Rightarrow>
          if is_expired_response final_url (absolute E url) then
            (case login E (say (''Session expired. Logging in again...'', []) w1) of
               (Raise Error, w2) \<Rightarrow> (Return None, say (''Error downloading '', [absolute E url]) w2)
             | (Raise SystemExit, w2) \<Rightarrow> (Raise SystemExit, w2)
             | (Return ok, w2) \<Rightarrow> download_file E depth (absolute E url) path filename w2)
          else
            except_Exception (fetch_and_store E (absolute E url) path filename w1)
              (\<lambda>w2. (Return None, say (''Error downloading '', [absolute E url]) w2)))"

section \<open>Course discovery\<close>

record course =
  course_url :: string
  course_name :: string

text \<open>
  \<open>_extract_courses_from_page\<close>: the cards first, every course link when no card gave
  a course, and the URLs made absolute at the end.
\<close>

definition or_unnamed :: "string \<Rightarrow> string" where
  "or_unnamed n = (if n = [] then ''Unnamed Course'' else n)"

definition courses_of_cards :: "document \<Rightarrow> course list" where
  "courses_of_cards doc =
     concat (map (\<lambda>(first_link, name_elem).
        case first_link of
          None \<Rightarrow> []
        | Some a \<Rightarrow>
            if contains ''course/view.php'' (href a)
            then [\<lparr>course_url = href a,
                   course_name = or_unnamed (case name_elem of Some t \<Rightarrow> t | None \<Rightarrow> link_text a)\<rparr>]
            else []) (doc_cards doc))"

definition courses_of_links :: "document \<Rightarrow> course list" where
  "courses_of_links doc =
     map (\<lambda>a. \<lparr>course_url = href a, course_name = or_unnamed (link_text a)\<rparr>)
       (filter (\<lambda>a. contains ''course/view.php'' (href a)) (doc_links doc))"

definition extract_courses_from_page :: "env \<Rightarrow> string \<Rightarrow> course list" where
  "extract_courses_from_page E html_content =
     (let doc = soup E html_content;
          courses = (if courses_of_cards doc = [] then courses_of_links doc else courses_of_cards doc)
      in map (\<lambda>c. c\<lparr>course_url := absolute E (course_url c)\<rparr>) courses)"

definition course_pages :: "string list" where
  "course_pages = [''/my/courses.php'', ''/my/index.php'', ''/course/index.php'']"

text \<open>The first loop of \<open>get_courses\<close>: a page that cannot be fetched is skipped.\<close>

fun collect_courses :: "env \<Rightarrow> string list \<Rightarrow> course list \<Rightarrow> world \<Rightarrow> course list \<times> world" where
  "collect_courses E [] courses w = (courses, w)"
| "collect_courses E (page # pages) courses w =
     (let url = urljoin E (base_url E) page in
      case http_get E False True url (say (''Checking for courses at: '', [url]) w) of
        (None, w1) \<Rightarrow> collect_courses E pages courses (say (''Error accessing '', [page]) w1)
      | (Some response, w1) \<Rightarrow>
          (let courses_found = extract_courses_from_page E (body_text response) in
           if courses_found \<noteq> []
           then collect_courses E pages (courses @ courses_found)
                  (say (''Found courses on '', [show_nat (length courses_found), page]) w1)
           else collect_courses E pages courses w1))"

text \<open>
  The second loop, over \<open>courses\<close>, with its two accumulators \<open>unique_courses\<close> and
  \<open>seen_urls\<close>.
\<close>

fun unique_loop :: "course list \<Rightarrow> course list \<Rightarrow> string set \<Rightarrow> course list" where
  "unique_loop [] unique_courses seen_urls = unique_courses"
| "unique_loop (c # cs) unique_courses seen_urls =
     (if course_url c \<notin> seen_urls
      then unique_loop cs (unique_courses @ [c]) (insert (course_url c) seen_urls)
      else unique_loop cs unique_courses seen_urls)"

definition get_courses :: "env \<Rightarrow> world \<Rightarrow> course list \<times> world" where
  "get_courses E w =
     (case collect_courses E course_pages [] w of
        (courses, w1) \<Rightarrow> (unique_loop courses [] {}, w1))"

section \<open>The resource page\<close>

text \<open>
  The two patterns of Method 3, applied by \<open>findall\<close> of the environment:
  \<^verbatim>\<open>(https?://[^"\']*(?:pluginfile\.php|file\.php)[^"\'\s]*)\<close> and
  \<^verbatim>\<open>(\/[^"\']*(?:pluginfile\.php|file\.php)[^"\'\s]*)\<close>.
\<close>

definition abs_url_pattern :: string where
  "abs_url_pattern =
     ''(https?://[^'' @ [CHR 0x22, CHR 0x5C, CHR 0x27] @ '']*(?:pluginfile'' @ [CHR 0x5C]
     @ ''.php|file'' @ [CHR 0x5C] @ ''.php)[^'' @ [CHR 0x22, CHR 0x5C, CHR 0x27, CHR 0x5C]
     @ ''s]*)''"

definition rel_url_pattern :: string where
  "rel_url_pattern =
     ''('' @ [CHR 0x5C] @ ''/[^'' @ [CHR 0x22, CHR 0x5C, CHR 0x27] @ '']*(?:pluginfile'' @ [CHR 0x5C]
     @ ''.php|file'' @ [CHR 0x5C] @ ''.php)[^'' @ [CHR 0x22, CHR 0x5C, CHR 0x27, CHR 0x5C]
     @ ''s]*)''"

text \<open>Lines 523 to 539: the direct download URL, asked for without following redirects.\<close>

definition direct_probe :: "env \<Rightarrow> string \<Rightarrow> string option \<Rightarrow> world \<Rightarrow> string option res \<times> world" where
  "direct_probe E url resource_id w =
     (if truthy resource_id \<and> contains ''resource/view.php'' url then
        (let direct_url = base_url E @ ''/mod/resource/view.php?id='' @ the resource_id @ ''&redirect=1'' in
         case http_get E False False direct_url (say (''Trying direct download URL: '', [direct_url]) w) of
           (None, w1) \<Rightarrow> (Raise Error, w1)
         | (Some response, w1) \<Rightarrow>
             if status_code response \<in> {301, 302, 303, 307, 308}
                \<and> header (headers response) ''Location'' \<noteq> None
             then (let file_url = absolute E (the (header (headers response) ''Location''))
                   in (Return (Some file_url), say (''Redirected to file: '', [file_url]) w1))
             else (Return None, w1))
      else (Return None, w))"

text \<open>Method 1: the first download link with a non-empty href.\<close>

definition download_links :: "document \<Rightarrow> string list" where
  "download_links doc =
     map (\<lambda>h. case h of None \<Rightarrow> [] | Some x \<Rightarrow> x) (doc_download_sel doc)
     @ filter (contains ''download'') (map href (doc_links doc))
     @ filter (contains ''pluginfile.php'') (map href (doc_links doc))"

definition first_download_link :: "document \<Rightarrow> string option" where
  "first_download_link doc = find (\<lambda>h. h \<noteq> []) (download_links doc)"

text \<open>Method 2: the first embedded source that names a file.\<close>

definition embedded_sources :: "document \<Rightarrow> string list" where
  "embedded_sources doc =
     concat (map (\<lambda>(src, data).
        let s = (if src \<noteq> [] then Some src else data) in if truthy s then [the s] else [])
        (doc_embeds doc))
     @ doc_media doc"

definition first_embedded :: "document \<Rightarrow> string option" where
  "first_embedded doc =
     find (\<lambda>src. src \<noteq> [] \<and> (contains ''pluginfile.php'' src \<or> contains ''file.php'' src))
       (embedded_sources doc)"

text \<open>Method 3: the URLs found in the scripts, script by script, made absolute.\<close>

definition script_urls :: "env \<Rightarrow> document \<Rightarrow> string list" where
  "script_urls E doc =
     map (absolute E)
       (concat (map (\<lambda>s. if truthy s
                          then findall E abs_url_pattern (the s) @ findall E rel_url_pattern (the s)
                          else []) (doc_scripts doc)))"

text \<open>Method 5: the first link whose href ends in a known extension.\<close>

definition file_extensions :: "string list" where
  "file_extensions =
     [''.pdf'', ''.doc'', ''.docx'', ''.ppt'', ''.pptx'', ''.xls'', ''.xlsx'', ''.zip'', ''.rar'',
      ''.7z'', ''.mp3'', ''.mp4'', ''.avi'', ''.mov'', ''.jpg'', ''.jpeg'', ''.png'', ''.gif'']"

definition first_by_extension :: "document \<Rightarrow> string option" where
  "first_by_extension doc =
     find (\<lambda>h. list_ex (\<lambda>ext. endswith (lower h) ext) file_extensions) (map href (doc_links doc))"

text \<open>Method 6: the first alternative link with a non-empty href.\<close>

definition first_alt_link :: "document \<Rightarrow> string option" where
  "first_alt_link doc =
     find (\<lambda>h. h \<noteq> []) (map (\<lambda>h. case h of None \<Rightarrow> [] | Some x \<Rightarrow> x) (doc_alt_sel doc))"

text \<open>Method 7: the course module id, from the last meta tag or else from the page text.\<close>

definition find_cmid :: "document \<Rightarrow> response \<Rightarrow> string option" where
  "find_cmid doc response =
     (let cmid = (if doc_meta_course_id doc = [] then None else last (doc_meta_course_id doc)) in
      if truthy cmid then cmid
      else (case search_key_digits ''cmid'' (body_text response) of
              Some g \<Rightarrow> Some g
            | None \<Rightarrow> cmid))"

definition url_patterns :: "env \<Rightarrow> string \<Rightarrow> string \<Rightarrow> string list" where
  "url_patterns E cmid resource_id =
     [base_url E @ ''/pluginfile.php/'' @ cmid @ ''/mod_resource/content/1/resource_'' @ resource_id,
      base_url E @ ''/pluginfile.php/mod_resource/content/'' @ resource_id,
      base_url E @ ''/mod/resource/view.php?id='' @ resource_id @ ''&forcedownload=1'',
      base_url E @ ''/mod/resource/view.php?id='' @ resource_id @ ''&redirect=1'']"

text \<open>
  The loops of Methods 3 and 7: each URL is announced and downloaded, and the loop
  returns at the first download that gives a path (\<open>if result: return result\<close>);
  \<open>None\<close> when it ran to its end.
\<close>

fun try_each ::
  "env \<Rightarrow> nat \<Rightarrow> string \<Rightarrow> string \<Rightarrow> string option \<Rightarrow> string list \<Rightarrow> world
   \<Rightarrow> string option res \<times> world" where
  "try_each E depth announce directory name [] w = (Return None, w)"
| "try_each E depth announce directory name (u # us) w =
     (case download_file E depth u directory name (say (announce, [u]) w) of
        (Raise e, w1) \<Rightarrow> (Raise e, w1)
      | (Return result, w1) \<Rightarrow>
          if truthy result then (Return result, w1)
          else try_each E depth announce directory name us w1)"

text \<open>Lines 655 to 664: nothing was found; the page is saved for debugging.\<close>

definition no_file_found ::
  "env \<Rightarrow> string \<Rightarrow> string \<Rightarrow> string option \<Rightarrow> response \<Rightarrow> world \<Rightarrow> string option res \<times> world" where
  "no_file_found E url directory name response w =
     (let w1 = say (''Could not extract file from resource page.'',
                    [case name of None \<Rightarrow> ''None'' | Some n \<Rightarrow> n, url]) w;
          debug_file = join directory
            (sanitize_filename (if truthy name then the name else ''resource'') @ ''_debug.html'')
      in if \<not> fs_open E debug_file then (Raise Error, w1)
         else (Return None,
               say (''Saved HTML for debugging to: '', [debug_file])
                 (w1\<lparr>files := (files w1)(debug_file \<mapsto> body_text response)\<rparr>)))"

text \<open>
  The chain of methods, last first: each definition is one method followed by the rest
  of the function. A method that finds a URL announces it and returns what
  \<open>download_file\<close> returns; Methods 3 and 7 go on when no download gave a path.
\<close>

definition method7 ::
  "env \<Rightarrow> nat \<Rightarrow> string \<Rightarrow> string \<Rightarrow> string option \<Rightarrow> string option \<Rightarrow> response \<Rightarrow> document
   \<Rightarrow> world \<Rightarrow> string option res \<times> world" where
  "method7 E depth url directory name resource_id response doc w =
     (let cmid = find_cmid doc response in
      if truthy cmid \<and> truthy resource_id then
        (case try_each E depth ''Trying pattern: '' directory name
                (url_patterns E (the cmid) (the resource_id)) w of
           (Raise e, w1) \<Rightarrow> (Raise e, w1)
         | (Return result, w1) \<Rightarrow>
             if truthy result then (Return result, w1)
             else no_file_found E url directory name response w1)
      else no_file_found E url directory name response w)"

definition method6 ::
  "env \<Rightarrow> nat \<Rightarrow> string \<Rightarrow> string \<Rightarrow> string option \<Rightarrow> string option \<Rightarrow> response \<Rightarrow> document
   \<Rightarrow> world \<Rightarrow> string option res \<times> world" where
  "method6 E depth url directory name resource_id response doc w =
     (case first_alt_link doc of
        Some h \<Rightarrow> download_file E depth (absolute E h) directory name
                    (say (''Found alternative link: '', [absolute E h]) w)
      | None \<Rightarrow> method7 E depth url directory name resource_id response doc w)"

definition method5 ::
  "env \<Rightarrow> nat \<Rightarrow> string \<Rightarrow> string \<Rightarrow> string option \<Rightarrow> string option \<Rightarrow> response \<Rightarrow> document
   \<Rightarrow> world \<Rightarrow> string option res \<times> world" where
  "method5 E depth url directory name resource_id response doc w =
     (case first_by_extension doc of
        Some h \<Rightarrow> download_file E depth (absolute E h) directory name
                    (say (''Found file link by extension: '', [absolute E h]) w)
      | None \<Rightarrow> method6 E depth url directory name resource_id response doc w)"

definition method4 ::
  "env \<Rightarrow> nat \<Rightarrow> string \<Rightarrow> string \<Rightarrow> string option \<Rightarrow> string option \<Rightarrow> response \<Rightarrow> document
   \<Rightarrow> world \<Rightarrow> string option res \<times> world" where
  "method4 E depth url directory name resource_id response doc w =
     (if truthy resource_id then
        (let content_url = base_url E @ ''/mod/resource/content.php?id='' @ the resource_id
         in download_file E depth content_url directory name
              (say (''Trying content endpoint: '', [content_url]) w))
      else method5 E depth url directory name resource_id response doc w)"

definition method3 ::
  "env \<Rightarrow> nat \<Rightarrow> string \<Rightarrow> string \<Rightarrow> string option \<Rightarrow> string option \<Rightarrow> response \<Rightarrow> document
   \<Rightarrow> world \<Rightarrow> string option res \<times> world" where
  "method3 E depth url directory name resource_id response doc w =
     (case try_each E depth ''Found URL in script: '' directory name (script_urls E doc) w of
        (Raise e, w1) \<Rightarrow> (Raise e, w1)
      | (Return result, w1) \<Rightarrow>
          if truthy result then (Return result, w1)
          else method4 E depth url directory name resource_id response doc w1)"

definition method2 ::
  "env \<Rightarrow> nat \<Rightarrow> string \<Rightarrow> string \<Rightarrow> string option \<Rightarrow> string option \<Rightarrow> response \<Rightarrow> document
   \<Rightarrow> world \<Rightarrow> string option res \<times> world" where
  "method2 E depth url directory name resource_id response doc w =
     (case first_embedded doc of
        Some src \<Rightarrow> download_file E depth (absolute E src) directory name
                      (say (''Found embedded content: '', [absolute E src]) w)
      | None \<Rightarrow> method3 E depth url directory name resource_id response doc w)"

definition method1 ::
  "env \<Rightarrow> nat \<Rightarrow> string \<Rightarrow> string \<Rightarrow> string option \<Rightarrow> string option \<Rightarrow> response \<Rightarrow> document
   \<Rightarrow> world \<Rightarrow> string option res \<times> world" where
  "method1 E depth url directory name resource_id response doc w =
     (case first_download_link doc of
        Some h \<Rightarrow> download_file E depth (absolute E h) directory name
                    (say (''Found download link: '', [absolute E h]) w)
      | None \<Rightarrow> method2 E depth url directory name resource_id response doc w)"

text \<open>Lines 541 to 546: the page is fetched and parsed, and its title logged.\<close>

definition analyse_page ::
  "env \<Rightarrow> nat \<Rightarrow> string \<Rightarrow> string \<Rightarrow> string option \<Rightarrow> string option \<Rightarrow> world
   \<Rightarrow> string option res \<times> world" where
  "analyse_page E depth url directory name resource_id w =
     (case http_get E False True url w of
        (None, w1) \<Rightarrow> (Raise Error, w1)
      | (Some response, w1) \<Rightarrow>
          (let doc = soup E (body_text response)
           in method1 E depth url directory name resource_id response doc
                (say (''Page title: '', [case doc_title doc of None \<Rightarrow> ''No title'' | Some t \<Rightarrow> t]) w1)))"

text \<open>
  \<open>_process_resource_page\<close>: the body of its \<open>try\<close>, and the function with its handler.
\<close>

definition resource_page_body ::
  "env \<Rightarrow> nat \<Rightarrow> string \<Rightarrow> string \<Rightarrow> string option \<Rightarrow> world \<Rightarrow> string option res \<times> world" where
  "resource_page_body E depth url directory name w =
     (let resource_id = query_id E url in
      case direct_probe E url resource_id (say (''Fetching resource page: '', [url]) w) of
        (Raise e, w1) \<Rightarrow> (Raise e, w1)
      | (Return (Some file_url), w1) \<Rightarrow> download_file E depth file_url directory name w1
      | (Return None, w1) \<Rightarrow> analyse_page E depth url directory name resource_id w1)"

definition process_resource_page ::
  "env \<Rightarrow> nat \<Rightarrow> string \<Rightarrow> string \<Rightarrow> string option \<Rightarrow> world \<Rightarrow> string option res \<times> world" where
  "process_resource_page E depth url directory name w =
     except_Exception (resource_page_body E depth (absolute E url) directory name w)
       (\<lambda>w1. (Return None,
               say (''traceback'', []) (say (''Error processing resource page '', [absolute E url]) w1)))"

section \<open>The crawler\<close>














section \<open>run\<close>




section \<open>A small portal for the examples\<close>

text \<open>
  The examples run the program against a concrete environment. Its library functions
  are simple stand-ins that agree with the real ones on the inputs used: URLs of the
  form \<open>scheme://host/path?query\<close> without escapes, relative URLs that start with
  one or two slashes, joined to a base without a path, and content lengths written as
  plain decimal numbers.
\<close>

definition example_url_path :: "string \<Rightarrow> string" where
  "example_url_path u =
     (let rest = (if startswith u ''https://'' then drop 8 u
                  else if startswith u ''http://'' then drop 7 u else u)
      in takeWhile (\<lambda>c. c \<noteq> CHR ''?'' \<and> c \<noteq> CHR ''#'') (dropWhile (\<lambda>c. c \<noteq> CHR ''/'') rest))"

definition example_urljoin :: "string \<Rightarrow> string \<Rightarrow> string" where
  "example_urljoin base u =
     (if startswith u ''//'' then takeWhile (\<lambda>c. c \<noteq> CHR ''/'') base @ u else base @ u)"

definition decimal :: "string \<Rightarrow> int option" where
  "decimal s =
     (if s \<noteq> [] \<and> list_all is_digit s
      then Some (int (fold (\<lambda>c n. 10 * n + (of_char c - 48)) s 0)) else None)"

definition no_document :: document where
  "no_document =
     \<lparr>doc_title = None, doc_links = [], doc_cards = [], doc_sections = [],
      doc_download_sel = [], doc_embeds = [], doc_media = [], doc_scripts = [],
      doc_alt_sel = [], doc_meta_course_id = [], doc_description = None\<rparr>"

definition portal :: env where
  "portal =
     \<lparr>base_url = ''https://moodle.example'', download_dir = ''/dl'', force_download = False,
      selection = ''all'',
      urljoin = example_urljoin, urlparse_path = example_url_path, unquote = (\<lambda>s. s),
      query_id = (\<lambda>u. None),
      guess_extension = (\<lambda>t. if t = ''application/pdf'' then Some ''.pdf'' else None),
      py_int = decimal, findall = (\<lambda>pattern s. []), soup = (\<lambda>html. no_document),
      srv_head = (\<lambda>n u. Some u), srv_get = (\<lambda>n allow_redirects u. None),
      srv_post = (\<lambda>n u. None),
      fs_makedirs = (\<lambda>d. True), fs_open = (\<lambda>p. True), fs_listdir = (\<lambda>d. Some 0)\<rparr>"

definition start :: world where
  "start = \<lparr>files = Map.empty, reqs = [], logged = []\<rparr>"

definition page :: "string \<Rightarrow> response" where
  "page html = \<lparr>status_code = 200, headers = Map.empty, chunks = [html], broken = False\<rparr>"

text \<open>
  Two discovery pages list the same course, the first by a relative link with the text
  Algebra I, the second by the absolute link with the text ALG-1; the third page
  cannot be fetched.
\<close>

definition discovery_portal :: env where
  "discovery_portal =
     portal\<lparr>
       srv_get := (\<lambda>n allow_redirects u.
          if u = ''https://moodle.example/my/courses.php'' then Some (page ''courses'')
          else if u = ''https://moodle.example/my/index.php'' then Some (page ''dashboard'')
          else None),
       soup := (\<lambda>html.
          if html = ''courses''
          then no_document\<lparr>doc_links := [\<lparr>href = ''/course/view.php?id=7'', link_text = ''Algebra I''\<rparr>]\<rparr>
          else if html = ''dashboard''
          then no_document\<lparr>doc_links :=
                 [\<lparr>href = ''https://moodle.example/course/view.php?id=7'', link_text = ''ALG-1''\<rparr>]\<rparr>
          else no_document)\<rparr>"

text \<open>
  A file of the portal: the response to its GET reports the content length \<open>v\<close> and
  carries the body \<open>body\<close>.
\<close>

definition notes_url :: string where
  "notes_url = ''https://moodle.example/pluginfile.php/9/notes.pdf''"

definition sized :: "string \<Rightarrow> string list \<Rightarrow> response" where
  "sized v body =
     \<lparr>status_code = 200, headers = [''content-length'' \<mapsto> v], chunks = body, broken = False\<rparr>"

definition sized_portal :: "string \<Rightarrow> string list \<Rightarrow> env" where
  "sized_portal v body =
     portal\<lparr>srv_get := (\<lambda>n allow_redirects u. if u = notes_url then Some (sized v body) else None)\<rparr>"

text \<open>The same file served without a Content-Length header.\<close>

definition chunked_portal :: env where
  "chunked_portal =
     portal\<lparr>srv_get := (\<lambda>n allow_redirects u. if u = notes_url then Some (page ''hello'') else None)\<rparr>"

text \<open>A world in which 200 bytes are already stored under the target path.\<close>

definition stored :: world where
  "stored = start\<lparr>files := [''/dl/notes.pdf'' \<mapsto> replicate 200 (CHR ''x'')]\<rparr>"

text \<open>
  A portal whose session expires twice in a row: the first two probes (entries 0 and
  5 of \<open>reqs\<close>) end on the login page, each new login is accepted, and the third
  probe (entry 10) is answered normally.
\<close>

definition expiring_portal :: env where
  "expiring_portal =
     portal\<lparr>
       srv_head := (\<lambda>n u. if n < 10 then Some ''https://moodle.example/login/index.php'' else Some u),
       srv_get := (\<lambda>n allow_redirects u.
          if u = notes_url then Some (sized ''5'' [''hello''])
          else if u = ''https://moodle.example/login/index.php'' then Some (page ''login form'')
          else None),
       srv_post := (\<lambda>n u. Some (page ''Dashboard''))\<rparr>"

text \<open>
  For the statements about repeated expiry: the probe of \<open>url\<close> in \<open>w\<close> shows an
  expired session and the login that follows is accepted; and the world after that
  probe and login.
\<close>

definition expiry_recovered :: "env \<Rightarrow> string \<Rightarrow> world \<Rightarrow> bool" where
  "expiry_recovered E url w =
     (case http_head E url w of
        (None, w1) \<Rightarrow> False
      | (Some final_url, w1) \<Rightarrow>
          is_expired_response final_url url
          \<and> fst (login E (say (''Session expired. Logging in again...'', []) w1)) = Return True)"

definition after_relogin :: "env \<Rightarrow> string \<Rightarrow> world \<Rightarrow> world" where
  "after_relogin E url w =
     snd (login E (say (''Session expired. Logging in again...'', []) (snd (http_head E url w))))"

definition logins :: "world \<Rightarrow> nat" where
  "logins w = length (filter (\<lambda>m. fst m = ''Login successful!'') (logged w))"

text \<open>The world after the file of \<open>sized_portal ''5'' [''hello'']\<close> was downloaded once.\<close>

definition once :: world where
  "once = snd (download_file (sized_portal ''5'' [''hello'']) (Suc 0) notes_url ''/dl'' None start)"

text \<open>The messages \<open>Trying pattern: ...\<close> of Method 7 among the messages logged.\<close>

definition pattern_attempts :: "world \<Rightarrow> msg list" where
  "pattern_attempts w = filter (\<lambda>m. fst m = ''Trying pattern: '') (logged w)"

text \<open>
  A resource page of the portal. The direct download URL answers with the page itself
  (no redirect); the page parses to \<open>doc\<close>; the content endpoint answers with
  \<open>content\<close>. The one script used in the examples names a file that cannot be
  fetched: the first pattern finds its URL, the second the same text from the first
  slash on.
\<close>

definition view_url :: string where
  "view_url = ''https://moodle.example/mod/resource/view.php?id=42''"

definition content_url :: string where
  "content_url = ''https://moodle.example/mod/resource/content.php?id=42''"

definition gone_url :: string where
  "gone_url = ''https://moodle.example/pluginfile.php/9/gone.pdf''"

definition script_text :: string where
  "script_text = ''var f = https://moodle.example/pluginfile.php/9/gone.pdf ;''"

definition resource_portal :: "document \<Rightarrow> response option \<Rightarrow> env" where
  "resource_portal doc content =
     portal\<lparr>
       query_id := (\<lambda>u. if u = view_url then Some ''42'' else None),
       srv_get := (\<lambda>n allow_redirects u.
          if u = view_url \<or> u = view_url @ ''&redirect=1'' then Some (page ''resource page'')
          else if u = notes_url then Some (sized ''5'' [''hello''])
          else if u = content_url then content
          else None),
       soup := (\<lambda>html. if html = ''resource page'' then doc else no_document),
       findall := (\<lambda>pattern s.
          if s = script_text \<and> pattern = abs_url_pattern then [gone_url]
          else if s = script_text \<and> pattern = rel_url_pattern
            then [''//moodle.example/pluginfile.php/9/gone.pdf'']
          else [])\<rparr>"



definition cmid_only :: document where
  "cmid_only = no_document\<lparr>doc_meta_course_id := [Some ''7'']\<rparr>"







section \<open>Facts about the helpers\<close>

lemma strip_chars_subset: "set (take n (strip_chars cs t)) \<subseteq> set t"
proof -
  have "set (take n (strip_chars cs t)) \<subseteq> set (strip_chars cs t)" by (rule set_take_subset)
  also have "\<dots> \<subseteq> set (dropWhile (\<lambda>c. c \<in> set cs) t)"
    unfolding strip_chars_def using set_dropWhileD by fastforce
  also have "\<dots> \<subseteq> set t" using set_dropWhileD by fastforce
  finally show ?thesis .
qed

lemma strip_chars_hd: "strip_chars cs t \<noteq> [] \<Longrightarrow> hd (strip_chars cs t) \<notin> set cs"
proof -
  assume a: "strip_chars cs t \<noteq> []"
  define u where "u = dropWhile (\<lambda>c. c \<in> set cs) t"
  have u: "u \<noteq> []" using a unfolding strip_chars_def u_def[symmetric] by auto
  then have hu: "hd u \<notin> set cs" unfolding u_def using hd_dropWhile by blast
  have s: "strip_chars cs t = rev (dropWhile (\<lambda>c. c \<in> set cs) (rev u))"
    unfolding strip_chars_def u_def ..
  have "rev (dropWhile P (rev u)) \<noteq> [] \<Longrightarrow> hd (rev (dropWhile P (rev u))) = hd u" for P
  proof (induction u rule: rev_induct)
    case Nil then show ?case by simp
  next
    case (snoc x xs)
    then show ?case by (cases "P x"; cases xs) auto
  qed
  with a s hu show ?thesis by metis
qed

section \<open>sanitize\_filename: what holds and what does not\<close>

text \<open>
  The substitution leaves none of the nine characters, the result has at most 100
  characters, and it does not start with a dot or a space.
\<close>

lemma sanitize_no_problematic: "set (sanitize_filename s) \<inter> problematic = {}"
proof -
  have a: "set (map (\<lambda>c. if c \<in> problematic then CHR ''_'' else c) s) \<inter> problematic = {}"
    by (auto simp: problematic_def)
  have "set (sanitize_filename s) \<subseteq> set (map (\<lambda>c. if c \<in> problematic then CHR ''_'' else c) s)"
    unfolding sanitize_filename_def Let_def by (rule strip_chars_subset)
  with a show ?thesis by blast
qed

lemma sanitize_length: "length (sanitize_filename s) \<le> 100"
  by (simp add: sanitize_filename_def)

lemma sanitize_hd:
  "sanitize_filename s \<noteq> [] \<Longrightarrow> hd (sanitize_filename s) \<notin> {CHR ''.'', CHR '' ''}"
  unfolding sanitize_filename_def Let_def
  using strip_chars_hd[of "''. ''"] by auto

text \<open>
  Claim C5 (the sanitizer replaces each of the characters \<open>\ / * ? : " < > |\<close> by an
  underscore, and its result is never longer than 100 characters and never starts or
  ends with a dot or a space). The code strips the dots and spaces first and cuts to
  100 characters afterwards, so the cut can end on a dot: for 99 letters followed by
  \<open>.b\<close> the result has 100 characters and its last one is the dot.
\<close>

theorem sanitize_filename_trailing_dot:
  "sanitize_filename (replicate 99 (CHR ''a'') @ ''.b'') = replicate 99 (CHR ''a'') @ ''.''
   \<and> last (sanitize_filename (replicate 99 (CHR ''a'') @ ''.b'')) = CHR ''.''"
  by code_simp

section \<open>Course discovery: one entry for each URL\<close>

lemma unique_loop_append: "unique_loop cs acc seen = acc @ unique_loop cs [] seen"
proof (induction cs arbitrary: acc seen)
  case Nil show ?case by simp
next
  case (Cons c cs)
  show ?case using Cons.IH[of "acc @ [c]"] Cons.IH[of "[c]"] Cons.IH[of acc] by simp
qed

lemma unique_loop_urls:
  "set (map course_url (unique_loop cs [] seen)) = set (map course_url cs) - seen"
proof (induction cs arbitrary: seen)
  case Nil show ?case by simp
next
  case (Cons c cs)
  show ?case using Cons.IH unique_loop_append[of cs "[c]"] by auto
qed

lemma unique_loop_distinct: "distinct (map course_url (unique_loop cs [] seen))"
proof (induction cs arbitrary: seen)
  case Nil show ?case by simp
next
  case (Cons c cs)
  show ?case using Cons.IH unique_loop_append[of cs "[c]"] unique_loop_urls[of cs] by auto
qed

lemma unique_loop_first:
  "c \<in> set (unique_loop cs [] seen) \<Longrightarrow> find (\<lambda>d. course_url d = course_url c) cs = Some c"
proof (induction cs arbitrary: seen)
  case Nil then show ?case by simp
next
  case (Cons x cs)
  show ?case
  proof (cases "course_url x \<in> seen")
    case True
    with Cons.prems have "c \<in> set (unique_loop cs [] seen)" by simp
    moreover from this have "course_url c \<notin> seen" using unique_loop_urls[of cs seen] by force
    ultimately show ?thesis using Cons.IH True by auto
  next
    case False
    with Cons.prems have "c = x \<or> c \<in> set (unique_loop cs [] (insert (course_url x) seen))"
      using unique_loop_append[of cs "[x]"] by auto
    then show ?thesis
    proof
      assume "c = x" then show ?thesis by simp
    next
      assume a: "c \<in> set (unique_loop cs [] (insert (course_url x) seen))"
      then have "course_url c \<noteq> course_url x"
        using unique_loop_urls[of cs "insert (course_url x) seen"] by force
      with a Cons.IH show ?thesis by auto
    qed
  qed
qed

text \<open>
  Claim C7 (course discovery removes duplicates by exact absolute URL: the returned
  list has exactly one entry for each distinct URL among the courses extracted from
  the discovery pages, namely the first occurrence with its name). Here
  \<open>collect_courses\<close> gives the courses extracted from the three pages, in order, with
  their URLs made absolute: the URLs of the result are distinct, they are the URLs
  that were extracted, and each entry is the first extracted course with its URL.
\<close>

theorem get_courses_unique:
  "distinct (map course_url (fst (get_courses E w)))
   \<and> set (map course_url (fst (get_courses E w)))
       = set (map course_url (fst (collect_courses E course_pages [] w)))
   \<and> (\<forall>c \<in> set (fst (get_courses E w)).
         find (\<lambda>d. course_url d = course_url c) (fst (collect_courses E course_pages [] w)) = Some c)"
  unfolding get_courses_def
  using unique_loop_distinct unique_loop_urls[of _ "{}"] unique_loop_first
  by (auto split: prod.splits)

text \<open>
  The two pages of \<open>discovery_portal\<close> list course 7 under different texts: two
  courses are extracted, one is returned, with the name of the first.
\<close>

theorem get_courses_unique_witness:
  "map course_name (fst (collect_courses discovery_portal course_pages [] start)) = [''Algebra I'', ''ALG-1'']
   \<and> fst (get_courses discovery_portal start)
       = [\<lparr>course_url = ''https://moodle.example/course/view.php?id=7'', course_name = ''Algebra I''\<rparr>]
   \<and> distinct (map course_url (fst (get_courses discovery_portal start)))
   \<and> find (\<lambda>d. course_url d = ''https://moodle.example/course/view.php?id=7'')
        (fst (collect_courses discovery_portal course_pages [] start))
       = Some \<lparr>course_url = ''https://moodle.example/course/view.php?id=7'', course_name = ''Algebra I''\<rparr>"
proof -
  have c: "map course_name (fst (collect_courses discovery_portal course_pages [] start))
             = [''Algebra I'', ''ALG-1'']"
    by code_simp
  have g: "fst (get_courses discovery_portal start)
             = [\<lparr>course_url = ''https://moodle.example/course/view.php?id=7'', course_name = ''Algebra I''\<rparr>]"
    by code_simp
  from get_courses_unique[of discovery_portal start] g c show ?thesis by simp
qed

section \<open>get\_file\_extension: the order of the priorities\<close>

lemma startswith_iff: "startswith s p \<longleftrightarrow> (\<exists>t. s = p @ t)"
  unfolding startswith_def
  by (metis append_eq_conv_conj append_take_drop_id)

lemma search_key_digits_iff:
  "search_key_digits key s \<noteq> None \<longleftrightarrow> (\<exists>a d b. s = a @ key @ ''='' @ d # b \<and> is_digit d)"
proof (induction s)
  case Nil
  show ?case by simp
next
  case (Cons c s)
  let ?here = "startswith (c # s) (key @ ''='') \<and> drop (length key + 1) (c # s) \<noteq> []
                 \<and> is_digit (hd (drop (length key + 1) (c # s)))"
  have here: "?here \<longleftrightarrow> (\<exists>d b. c # s = key @ ''='' @ d # b \<and> is_digit d)"
  proof
    assume h: ?here
    then obtain t where t: "c # s = (key @ ''='') @ t" using startswith_iff by blast
    then have "drop (length key + 1) (c # s) = t"
      by (metis append_eq_conv_conj length_append_singleton Suc_eq_plus1)
    with h obtain d b where "t = d # b" "is_digit d" by (cases t) auto
    with t show "\<exists>d b. c # s = key @ ''='' @ d # b \<and> is_digit d" by auto
  next
    assume "\<exists>d b. c # s = key @ ''='' @ d # b \<and> is_digit d"
    then obtain d b where e: "c # s = key @ ''='' @ d # b" and d: "is_digit d" by blast
    then have "c # s = (key @ ''='') @ (d # b)" by simp
    then have "startswith (c # s) (key @ ''='')" "drop (length key + 1) (c # s) = d # b"
      using startswith_iff apply blast
      by (metis \<open>c # s = (key @ ''='') @ d # b\<close> append_eq_conv_conj length_append_singleton Suc_eq_plus1)
    with d show ?here by simp
  qed
  have "search_key_digits key (c # s)
          = (if ?here then Some (takeWhile is_digit (drop (length key + 1) (c # s)))
             else search_key_digits key s)"
    by (simp only: search_key_digits.simps Let_def)
  then have "search_key_digits key (c # s) \<noteq> None \<longleftrightarrow> ?here \<or> search_key_digits key s \<noteq> None"
    by (metis option.distinct(1))
  also have "\<dots> \<longleftrightarrow> (\<exists>d b. c # s = key @ ''='' @ d # b \<and> is_digit d)
                      \<or> (\<exists>a d b. s = a @ key @ ''='' @ d # b \<and> is_digit d)"
    using here Cons.IH by simp
  also have "\<dots> \<longleftrightarrow> (\<exists>a d b. c # s = a @ key @ ''='' @ d # b \<and> is_digit d)"
  proof
    assume "(\<exists>d b. c # s = key @ ''='' @ d # b \<and> is_digit d)
             \<or> (\<exists>a d b. s = a @ key @ ''='' @ d # b \<and> is_digit d)"
    then show "\<exists>a d b. c # s = a @ key @ ''='' @ d # b \<and> is_digit d"
    proof
      assume "\<exists>d b. c # s = key @ ''='' @ d # b \<and> is_digit d"
      then show ?thesis by (metis append_Nil)
    next
      assume "\<exists>a d b. s = a @ key @ ''='' @ d # b \<and> is_digit d"
      then show ?thesis by (metis append_Cons)
    qed
  next
    assume "\<exists>a d b. c # s = a @ key @ ''='' @ d # b \<and> is_digit d"
    then obtain a d b where e: "c # s = a @ key @ ''='' @ d # b" and d: "is_digit d" by blast
    show "(\<exists>d b. c # s = key @ ''='' @ d # b \<and> is_digit d)
             \<or> (\<exists>a d b. s = a @ key @ ''='' @ d # b \<and> is_digit d)"
    proof (cases a)
      case Nil
      with e d show ?thesis by auto
    next
      case (Cons x a')
      with e have "s = a' @ key @ ''='' @ d # b" by simp
      with d show ?thesis by blast
    qed
  qed
  finally show ?case .
qed

text \<open>
  Claim C8, as amended. The URL pattern \<open>doc=<digits>\<close> is the fifth thing the
  resolver looks at: it gives \<open>.doc\<close> for every URL that contains \<open>doc=\<close> followed by
  a digit when the original filename gives no extension, the last component of the URL
  path has no extension of at most 10 characters, no content-type header is given and
  the URL contains no \<open>pdf=\<close> followed by a digit. And when the original filename
  gives no extension and the URL path has no extension of at most 10 characters, a
  content type \<open>application/pdf\<close>, which \<open>mimetypes\<close> maps to \<open>.pdf\<close>, gives \<open>.pdf\<close>.
\<close>

theorem get_file_extension_doc_pdf:
  "(ext_of_original original_filename = []
      \<and> (ext_of_url E url = [] \<or> 10 < length (ext_of_url E url))
      \<and> (response_headers = None \<or> header (the response_headers) ''Content-Type'' = None)
      \<and> \<not> (\<exists>a d b. url = a @ ''pdf='' @ d # b \<and> is_digit d)
      \<and> (\<exists>a d b. url = a @ ''doc='' @ d # b \<and> is_digit d)
    \<longrightarrow> get_file_extension E url response_headers original_filename = ''.doc'')
   \<and> (ext_of_original original_filename = []
      \<and> (ext_of_url E url = [] \<or> 10 < length (ext_of_url E url))
      \<and> header h ''Content-Type'' = Some v
      \<and> strip_space (split_first CHR '';'' v) = ''application/pdf''
      \<and> guess_extension E ''application/pdf'' = Some ''.pdf''
    \<longrightarrow> get_file_extension E url (Some h) original_filename = ''.pdf'')"
proof (intro conjI impI)
  assume a: "ext_of_original original_filename = []
      \<and> (ext_of_url E url = [] \<or> 10 < length (ext_of_url E url))
      \<and> (response_headers = None \<or> header (the response_headers) ''Content-Type'' = None)
      \<and> \<not> (\<exists>a d b. url = a @ ''pdf='' @ d # b \<and> is_digit d)
      \<and> (\<exists>a d b. url = a @ ''doc='' @ d # b \<and> is_digit d)"
  then have ct: "ext_of_content_type E response_headers = None"
    by (auto simp: ext_of_content_type_def split: option.splits)
  have "search_key_digits ''pdf'' url \<noteq> None \<longleftrightarrow> (\<exists>a d b. url = a @ ''pdf='' @ d # b \<and> is_digit d)"
    using search_key_digits_iff[of "''pdf''" url] by simp
  with a have p: "search_key_digits ''pdf'' url = None" by blast
  have "search_key_digits ''doc'' url \<noteq> None \<longleftrightarrow> (\<exists>a d b. url = a @ ''doc='' @ d # b \<and> is_digit d)"
    using search_key_digits_iff[of "''doc''" url] by simp
  with a have d: "search_key_digits ''doc'' url \<noteq> None" by blast
  from a ct p d show "get_file_extension E url response_headers original_filename = ''.doc''"
    by (auto simp: get_file_extension_def truthy_def)
next
  assume a: "ext_of_original original_filename = []
      \<and> (ext_of_url E url = [] \<or> 10 < length (ext_of_url E url))
      \<and> header h ''Content-Type'' = Some v
      \<and> strip_space (split_first CHR '';'' v) = ''application/pdf''
      \<and> guess_extension E ''application/pdf'' = Some ''.pdf''"
  then have ct: "ext_of_content_type E (Some h) = Some ''.pdf''"
    by (simp add: ext_of_content_type_def)
  from a ct show "get_file_extension E url (Some h) original_filename = ''.pdf''"
    by (auto simp: get_file_extension_def truthy_def)
qed

text \<open>
  Claim C8 as stated fails where the URL path has an extension: the URL
  \<open>https://moodle.example/mod/view.php?doc=123\<close> contains \<open>doc=123\<close>, there is no
  original filename and no header, and the resolver returns \<open>.php\<close>.
\<close>

theorem get_file_extension_doc_counterexample:
  "ext_of_original None = []
   \<and> search_key_digits ''doc'' ''https://moodle.example/mod/view.php?doc=123'' = Some ''123''
   \<and> get_file_extension portal ''https://moodle.example/mod/view.php?doc=123'' None None = ''.php''"
  by code_simp

text \<open>Both halves at concrete URLs of the example portal.\<close>

theorem get_file_extension_doc_pdf_witness:
  "get_file_extension portal ''https://moodle.example/mod/view?doc=123'' None None = ''.doc''
   \<and> get_file_extension portal ''https://moodle.example/mod/view?id=5''
        (Some [''content-type'' \<mapsto> ''application/pdf; charset=binary'']) None = ''.pdf''"
proof -
  have 1: "ext_of_original None = []" by code_simp
  have 2: "ext_of_url portal ''https://moodle.example/mod/view?doc=123'' = []" by code_simp
  have "search_key_digits ''pdf'' ''https://moodle.example/mod/view?doc=123'' = None" by code_simp
  moreover have "search_key_digits ''pdf'' ''https://moodle.example/mod/view?doc=123'' \<noteq> None
     \<longleftrightarrow> (\<exists>a d b. ''https://moodle.example/mod/view?doc=123'' = a @ ''pdf='' @ d # b \<and> is_digit d)"
    using search_key_digits_iff[of "''pdf''" "''https://moodle.example/mod/view?doc=123''"]
    by (simp only: append.simps)
  ultimately have 3: "\<not> (\<exists>a d b. ''https://moodle.example/mod/view?doc=123'' = a @ ''pdf='' @ d # b \<and> is_digit d)"
    by blast
  have "search_key_digits ''doc'' ''https://moodle.example/mod/view?doc=123'' = Some ''123''" by code_simp
  moreover have "search_key_digits ''doc'' ''https://moodle.example/mod/view?doc=123'' \<noteq> None
     \<longleftrightarrow> (\<exists>a d b. ''https://moodle.example/mod/view?doc=123'' = a @ ''doc='' @ d # b \<and> is_digit d)"
    using search_key_digits_iff[of "''doc''" "''https://moodle.example/mod/view?doc=123''"]
    by (simp only: append.simps)
  ultimately have 4: "\<exists>a d b. ''https://moodle.example/mod/view?doc=123'' = a @ ''doc='' @ d # b \<and> is_digit d"
    by (metis option.distinct(1))
  have 5: "ext_of_url portal ''https://moodle.example/mod/view?id=5'' = []" by code_simp
  have 6: "header [''content-type'' \<mapsto> ''application/pdf; charset=binary''] ''Content-Type''
             = Some ''application/pdf; charset=binary''" by code_simp
  have 7: "strip_space (split_first CHR '';'' ''application/pdf; charset=binary'') = ''application/pdf''"
    by code_simp
  have 8: "guess_extension portal ''application/pdf'' = Some ''.pdf''" by code_simp
  from get_file_extension_doc_pdf[of None portal "''https://moodle.example/mod/view?doc=123''" None
         "[''content-type'' \<mapsto> ''application/pdf; charset=binary'']" "''application/pdf; charset=binary''"]
       1 2 3 4
  have a: "get_file_extension portal ''https://moodle.example/mod/view?doc=123'' None None = ''.doc''"
    by blast
  from get_file_extension_doc_pdf[of None portal "''https://moodle.example/mod/view?id=5''" None
         "[''content-type'' \<mapsto> ''application/pdf; charset=binary'']" "''application/pdf; charset=binary''"]
       1 5 6 7 8
  have b: "get_file_extension portal ''https://moodle.example/mod/view?id=5''
        (Some [''content-type'' \<mapsto> ''application/pdf; charset=binary'']) None = ''.pdf''"
    by blast
  from a b show ?thesis by simp
qed

section \<open>download\_file: content length and existing files\<close>

lemma say_fields [simp]:
  "files (say m w) = files w" "reqs (say m w) = reqs w" "logged (say m w) = logged w @ [m]"
  by (simp_all add: say_def)

lemma sent_fields [simp]:
  "files (sent rs w) = files w" "reqs (sent rs w) = reqs w @ rs" "logged (sent rs w) = logged w"
  by (simp_all add: sent_def)

lemma http_head_world: "http_head E u w = (r, w1) \<Longrightarrow> w1 = sent [Head u] w"
  by (auto simp: http_head_def)

lemma http_get_stream_world: "http_get E True a u w = (r, w1) \<Longrightarrow> w1 = sent [Get u] w"
  by (auto simp: http_get_def split: option.splits)

declare download_file.simps [simp del]

lemma download_file_probe_ok:
  assumes "http_head E (absolute E url) w = (Some final_url, w1)"
    and "\<not> is_expired_response final_url (absolute E url)"
  shows "download_file E (Suc d) url path filename w
         = except_Exception (fetch_and_store E (absolute E url) path filename w1)
             (\<lambda>w2. (Return None, say (''Error downloading '', [absolute E url]) w2))"
  using assms by (simp add: download_file.simps)

lemma note_extension_fields [simp]:
  "files (note_extension E u r f w) = files w" "reqs (note_extension E u r f w) = reqs w"
  by (simp_all add: note_extension_def)

lemma fetch_and_store_ok:
  assumes get: "http_get E True True u w1 = (Some response, w2)"
    and mk: "fs_makedirs E (dirname (target_path E u path filename response))"
  shows "fetch_and_store E u path filename w1
         = store E u response (final_filename E u response filename)
             (target_path E u path filename response)
             (note_extension E u response filename (sent [Get u] w1))"
  using get mk http_get_stream_world[OF get]
  by (simp add: fetch_and_store_def Let_def)



text \<open>
  Claim C4, as amended. A file of non-zero size exists at the target path, the force
  flag is unset, the probe showed no expiry, the GET was answered and the directory of
  the target can be made. Then: when the reported length differs from the existing size
  by at most 99, the download is skipped, the existing path returned and no file
  changed; when the reported length is not zero and differs by 100 or more, and the
  file can be opened and the body read to its end, the path is returned and the file
  holds the body; when no length is reported, or the length 0, the existing file is
  kept and its path returned.
\<close>

theorem download_file_existing_file:
  assumes probe: "http_head E (absolute E url) w = (Some final_url, w1)"
    and fresh: "\<not> is_expired_response final_url (absolute E url)"
    and get: "http_get E True True (absolute E url) w1 = (Some response, w2)"
    and no_force: "\<not> force_download E"
    and existing: "files w (target_path E (absolute E url) path filename response) = Some existing"
    and nonzero: "existing \<noteq> []"
    and mk: "fs_makedirs E (dirname (target_path E (absolute E url) path filename response))"
  shows "(header (headers response) ''content-length'' = Some v \<and> py_int E v = Some n
            \<and> \<bar>int (length existing) - n\<bar> \<le> 99
          \<longrightarrow> fst (download_file E (Suc d) url path filename w)
                = Return (Some (target_path E (absolute E url) path filename response))
              \<and> files (snd (download_file E (Suc d) url path filename w)) = files w)
       \<and> (header (headers response) ''content-length'' = Some v \<and> py_int E v = Some n
            \<and> n \<noteq> 0 \<and> 100 \<le> \<bar>int (length existing) - n\<bar>
            \<and> fs_open E (target_path E (absolute E url) path filename response)
            \<and> \<not> broken response
          \<longrightarrow> fst (download_file E (Suc d) url path filename w)
                = Return (Some (target_path E (absolute E url) path filename response))
              \<and> files (snd (download_file E (Suc d) url path filename w))
                = (files w)(target_path E (absolute E url) path filename response
                            \<mapsto> concat (chunks response)))
       \<and> (header (headers response) ''content-length'' = None
            \<or> (header (headers response) ''content-length'' = Some v \<and> py_int E v = Some 0)
          \<longrightarrow> fst (download_file E (Suc d) url path filename w)
                = Return (Some (target_path E (absolute E url) path filename response))
              \<and> files (snd (download_file E (Suc d) url path filename w)) = files w)"
proof -
  let ?u = "absolute E url"
  let ?p = "target_path E ?u path filename response"
  let ?fn = "final_filename E ?u response filename"
  have w1: "files w1 = files w" using http_head_world[OF probe] by simp
  define w3 where "w3 = note_extension E ?u response filename (sent [Get ?u] w1)"
  have w3: "files w3 = files w" using w1 by (simp add: w3_def)
  have fs: "fetch_and_store E ?u path filename w1 = store E ?u response ?fn ?p w3"
    using fetch_and_store_ok[OF get mk] by (simp add: w3_def)
  have df: "download_file E (Suc d) url path filename w
            = except_Exception (store E ?u response ?fn ?p w3)
                (\<lambda>w2. (Return None, say (''Error downloading '', [?u]) w2))"
    using download_file_probe_ok[OF probe fresh] fs by simp
  have ex: "files w3 ?p = Some existing" using existing w3 by simp
  show ?thesis
    unfolding df
    using ex nonzero no_force w3
    by (auto simp: store_def transfer_def content_length_def except_Exception_def Let_def)
qed

text \<open>The requests of a world answered as the portal answers them.\<close>

lemma http_head_eq:
  "srv_head E (length (reqs w)) u = r \<Longrightarrow> http_head E u w = (r, sent [Head u] w)"
  by (simp add: http_head_def)

lemma http_get_stream_eq:
  "srv_get E (length (reqs w)) a u = Some r \<Longrightarrow> http_get E True a u w = (Some r, sent [Get u] w)"
  by (simp add: http_get_def)


text \<open>
  Claim C4 as stated fails for a reported length of 0: 200 bytes are stored, the
  server reports \<open>Content-Length: 0\<close>, the difference is 200, and the file is kept as
  it is, its path returned and no body read. The code reads 0 as an unknown length.
\<close>

theorem download_file_zero_length_counterexample:
  "files stored ''/dl/notes.pdf'' = Some (replicate 200 (CHR ''x''))
   \<and> header (headers (sized ''0'' [''hello''])) ''content-length'' = Some ''0''
   \<and> py_int (sized_portal ''0'' [''hello'']) ''0'' = Some 0
   \<and> fst (download_file (sized_portal ''0'' [''hello'']) (Suc 0) notes_url ''/dl'' None stored)
       = Return (Some ''/dl/notes.pdf'')
   \<and> files (snd (download_file (sized_portal ''0'' [''hello'']) (Suc 0) notes_url ''/dl'' None stored))
        ''/dl/notes.pdf'' = Some (replicate 200 (CHR ''x''))
   \<and> reqs (snd (download_file (sized_portal ''0'' [''hello'']) (Suc 0) notes_url ''/dl'' None stored))
       = [Head notes_url, Get notes_url]"
  by code_simp

text \<open>
  200 bytes are stored: a reported length of 299 skips the download, one of 300
  replaces the file by the body, and no reported length keeps the file.
\<close>

theorem download_file_existing_file_witness:
  "fst (download_file (sized_portal ''299'' [''hello'']) (Suc 0) notes_url ''/dl'' None stored)
     = Return (Some ''/dl/notes.pdf'')
   \<and> files (snd (download_file (sized_portal ''299'' [''hello'']) (Suc 0) notes_url ''/dl'' None stored))
     = files stored
   \<and> fst (download_file (sized_portal ''300'' [''hello'']) (Suc 0) notes_url ''/dl'' None stored)
     = Return (Some ''/dl/notes.pdf'')
   \<and> files (snd (download_file (sized_portal ''300'' [''hello'']) (Suc 0) notes_url ''/dl'' None stored))
     = (files stored)(''/dl/notes.pdf'' \<mapsto> ''hello'')
   \<and> fst (download_file chunked_portal (Suc 0) notes_url ''/dl'' None stored)
     = Return (Some ''/dl/notes.pdf'')
   \<and> files (snd (download_file chunked_portal (Suc 0) notes_url ''/dl'' None stored)) = files stored"
proof -
  let ?w1 = "sent [Head notes_url] stored"
  have f: "\<not> is_expired_response notes_url notes_url" by code_simp
  have e: "files stored ''/dl/notes.pdf'' = Some (replicate 200 (CHR ''x''))"
    by (simp add: stored_def)
  have z: "replicate 200 (CHR ''x'') \<noteq> []" by simp
  have l: "length (replicate 200 (CHR ''x'')) = 200" by simp
  have d: "dirname ''/dl/notes.pdf'' = ''/dl''" by code_simp
  have a: "fst (download_file (sized_portal ''299'' [''hello'']) (Suc 0) notes_url ''/dl'' None stored)
             = Return (Some ''/dl/notes.pdf'')
           \<and> files (snd (download_file (sized_portal ''299'' [''hello'']) (Suc 0) notes_url ''/dl'' None stored))
             = files stored"
  proof -
    let ?E = "sized_portal ''299'' [''hello'']" and ?r = "sized ''299'' [''hello'']"
    have 1: "absolute ?E notes_url = notes_url" by code_simp
    have 2: "http_head ?E notes_url stored = (Some notes_url, ?w1)"
      by (rule http_head_eq) (simp add: sized_portal_def portal_def)
    have 3: "http_get ?E True True notes_url ?w1 = (Some ?r, sent [Get notes_url] ?w1)"
      by (rule http_get_stream_eq) (simp add: sized_portal_def portal_def)
    have 4: "\<not> force_download ?E" by code_simp
    have 5: "target_path ?E notes_url ''/dl'' None ?r = ''/dl/notes.pdf''" by code_simp
    have 6: "fs_makedirs ?E ''/dl''" by code_simp
    have 7: "header (headers ?r) ''content-length'' = Some ''299''" by code_simp
    have 8: "py_int ?E ''299'' = Some 299" by code_simp
    from download_file_existing_file[where E = ?E and url = notes_url and w = stored
        and path = "''/dl''" and filename = None and d = 0 and v = "''299''" and n = 299,
        unfolded 1, OF 2 f 3 4, unfolded 5, OF e z, unfolded d, OF 6] 7 8
    show ?thesis by (simp add: l)
  qed
  have b: "fst (download_file (sized_portal ''300'' [''hello'']) (Suc 0) notes_url ''/dl'' None stored)
             = Return (Some ''/dl/notes.pdf'')
           \<and> files (snd (download_file (sized_portal ''300'' [''hello'']) (Suc 0) notes_url ''/dl'' None stored))
             = (files stored)(''/dl/notes.pdf'' \<mapsto> ''hello'')"
  proof -
    let ?E = "sized_portal ''300'' [''hello'']" and ?r = "sized ''300'' [''hello'']"
    have 1: "absolute ?E notes_url = notes_url" by code_simp
    have 2: "http_head ?E notes_url stored = (Some notes_url, ?w1)"
      by (rule http_head_eq) (simp add: sized_portal_def portal_def)
    have 3: "http_get ?E True True notes_url ?w1 = (Some ?r, sent [Get notes_url] ?w1)"
      by (rule http_get_stream_eq) (simp add: sized_portal_def portal_def)
    have 4: "\<not> force_download ?E" by code_simp
    have 5: "target_path ?E notes_url ''/dl'' None ?r = ''/dl/notes.pdf''" by code_simp
    have 6: "fs_makedirs ?E ''/dl''" by code_simp
    have 7: "header (headers ?r) ''content-length'' = Some ''300''" by code_simp
    have 8: "py_int ?E ''300'' = Some 300" by code_simp
    have 9: "fs_open ?E ''/dl/notes.pdf''" by code_simp
    have 10: "\<not> broken ?r" by code_simp
    have 11: "concat (chunks ?r) = ''hello''" by code_simp
    from download_file_existing_file[where E = ?E and url = notes_url and w = stored
        and path = "''/dl''" and filename = None and d = 0 and v = "''300''" and n = 300,
        unfolded 1, OF 2 f 3 4, unfolded 5, OF e z, unfolded d, OF 6] 7 8 9 10 11
    show ?thesis by (simp add: l)
  qed
  have c: "fst (download_file chunked_portal (Suc 0) notes_url ''/dl'' None stored)
             = Return (Some ''/dl/notes.pdf'')
           \<and> files (snd (download_file chunked_portal (Suc 0) notes_url ''/dl'' None stored)) = files stored"
  proof -
    let ?E = chunked_portal and ?r = "page ''hello''"
    have 1: "absolute ?E notes_url = notes_url" by code_simp
    have 2: "http_head ?E notes_url stored = (Some notes_url, ?w1)"
      by (rule http_head_eq) (simp add: chunked_portal_def portal_def)
    have 3: "http_get ?E True True notes_url ?w1 = (Some ?r, sent [Get notes_url] ?w1)"
      by (rule http_get_stream_eq) (simp add: chunked_portal_def portal_def)
    have 4: "\<not> force_download ?E" by code_simp
    have 5: "target_path ?E notes_url ''/dl'' None ?r = ''/dl/notes.pdf''" by code_simp
    have 6: "fs_makedirs ?E ''/dl''" by code_simp
    have 7: "header (headers ?r) ''content-length'' = None" by code_simp
    from download_file_existing_file[where E = ?E and url = notes_url and w = stored
        and path = "''/dl''" and filename = None and d = 0,
        unfolded 1, OF 2 f 3 4, unfolded 5, OF e z, unfolded d, OF 6] 7
    show ?thesis by simp
  qed
  from a b c show ?thesis by simp
qed

section \<open>download\_file: session expiry\<close>

lemma download_file_expired_step:
  assumes abs: "absolute E u = u" and rec: "expiry_recovered E u w"
  shows "download_file E (Suc d) u path filename w
         = download_file E d u path filename (after_relogin E u w)"
proof -
  obtain r w1 where h: "http_head E u w = (r, w1)" by (cases "http_head E u w")
  with rec obtain final_url where r: "r = Some final_url"
    and ex: "is_expired_response final_url u"
    and ok: "fst (login E (say (''Session expired. Logging in again...'', []) w1)) = Return True"
    by (cases r) (auto simp: expiry_recovered_def)
  obtain w2 where l: "login E (say (''Session expired. Logging in again...'', []) w1) = (Return True, w2)"
    using ok by (cases "login E (say (''Session expired. Logging in again...'', []) w1)") auto
  have "after_relogin E u w = w2" using h l by (simp add: after_relogin_def)
  then show ?thesis using h r ex l abs by (simp add: download_file.simps)
qed

lemma login_ok_logins:
  "fst (login E w) = Return True \<Longrightarrow> logins (snd (login E w)) = Suc (logins w)"
  by (auto simp: login_def logins_def Let_def http_get_def http_post_def
           split: prod.splits option.splits if_splits)

lemma after_relogin_logins:
  assumes "expiry_recovered E u w"
  shows "logins (after_relogin E u w) = Suc (logins w)"
proof -
  obtain r w1 where h: "http_head E u w = (r, w1)" by (cases "http_head E u w")
  with assms have ok: "fst (login E (say (''Session expired. Logging in again...'', []) w1)) = Return True"
    by (cases r) (auto simp: expiry_recovered_def)
  have "logins (say (''Session expired. Logging in again...'', []) w1) = logins w"
    using http_head_world[OF h] by (simp add: logins_def)
  with login_ok_logins[OF ok] h show ?thesis by (simp add: after_relogin_def)
qed

text \<open>
  Claim C1, as amended. Every probe that shows an expired session is followed by a
  new login and a new call of \<open>download_file\<close>, however many came before: when the
  first \<open>n\<close> probes show an expiry and each login is accepted, the call with a
  recursion budget of \<open>n + d\<close> is the call with budget \<open>d\<close> in the world after \<open>n\<close>
  logins, and \<open>n\<close> logins have succeeded by then. The code counts nothing: only a
  probe without expiry, a failed login or the recursion limit (budget 0, result
  \<open>None\<close>) ends the chain.
\<close>

theorem download_file_relogin_every_expiry:
  assumes abs: "absolute E u = u"
    and rec: "\<forall>i<n. expiry_recovered E u ((after_relogin E u ^^ i) w)"
  shows "download_file E (n + d) u path filename w
           = download_file E d u path filename ((after_relogin E u ^^ n) w)
         \<and> logins ((after_relogin E u ^^ n) w) = logins w + n"
  using rec
proof (induction n arbitrary: w)
  case 0
  show ?case by simp
next
  case (Suc n)
  from Suc.prems have first: "expiry_recovered E u w" by force
  have "\<forall>i<n. expiry_recovered E u ((after_relogin E u ^^ i) (after_relogin E u w))"
  proof (intro allI impI)
    fix i assume "i < n"
    then have "expiry_recovered E u ((after_relogin E u ^^ Suc i) w)" using Suc.prems by blast
    then show "expiry_recovered E u ((after_relogin E u ^^ i) (after_relogin E u w))"
      by (simp add: funpow_swap1)
  qed
  from Suc.IH[OF this]
  have ih: "download_file E (n + d) u path filename (after_relogin E u w)
              = download_file E d u path filename ((after_relogin E u ^^ n) (after_relogin E u w))"
    and il: "logins ((after_relogin E u ^^ n) (after_relogin E u w)) = logins (after_relogin E u w) + n"
    by simp_all
  have sw: "(after_relogin E u ^^ Suc n) w = (after_relogin E u ^^ n) (after_relogin E u w)"
    by (simp add: funpow_swap1)
  have "download_file E (Suc n + d) u path filename w
        = download_file E (n + d) u path filename (after_relogin E u w)"
    using download_file_expired_step[OF abs first] by simp
  with ih il sw after_relogin_logins[OF first] show ?case by simp
qed

text \<open>
  Claim C1 as stated (exactly one retry; a second expiry in a row is a failure)
  fails: with two expired probes in a row the program logs in twice, probes three
  times and stores the file.
\<close>

theorem download_file_two_expiries_counterexample:
  "fst (download_file expiring_portal 3 notes_url ''/dl'' None start) = Return (Some ''/dl/notes.pdf'')
   \<and> logins (snd (download_file expiring_portal 3 notes_url ''/dl'' None start)) = 2
   \<and> count_list (reqs (snd (download_file expiring_portal 3 notes_url ''/dl'' None start)))
        (Head notes_url) = 3
   \<and> files (snd (download_file expiring_portal 3 notes_url ''/dl'' None start)) ''/dl/notes.pdf''
       = Some ''hello''"
  by code_simp

text \<open>Two expiries in a row at the expiring portal, with a budget of three calls.\<close>

theorem download_file_relogin_every_expiry_witness:
  "download_file expiring_portal (2 + 1) notes_url ''/dl'' None start
     = download_file expiring_portal 1 notes_url ''/dl'' None
         ((after_relogin expiring_portal notes_url ^^ 2) start)
   \<and> logins ((after_relogin expiring_portal notes_url ^^ 2) start) = 2
   \<and> fst (download_file expiring_portal 1 notes_url ''/dl'' None
         ((after_relogin expiring_portal notes_url ^^ 2) start)) = Return (Some ''/dl/notes.pdf'')"
proof -
  have a: "absolute expiring_portal notes_url = notes_url" by code_simp
  have r0: "expiry_recovered expiring_portal notes_url start" by code_simp
  have r1: "expiry_recovered expiring_portal notes_url (after_relogin expiring_portal notes_url start)"
    by code_simp
  have r: "\<forall>i<2. expiry_recovered expiring_portal notes_url
                   ((after_relogin expiring_portal notes_url ^^ i) start)"
  proof (intro allI impI)
    fix i :: nat assume "i < 2"
    then have "i = 0 \<or> i = 1" by auto
    then show "expiry_recovered expiring_portal notes_url
                 ((after_relogin expiring_portal notes_url ^^ i) start)"
      using r0 r1 by auto
  qed
  have l: "logins start = 0" by code_simp
  have f: "fst (download_file expiring_portal 1 notes_url ''/dl'' None
         ((after_relogin expiring_portal notes_url ^^ 2) start)) = Return (Some ''/dl/notes.pdf'')"
    by code_simp
  from download_file_relogin_every_expiry[OF a r, of 1 "''/dl''" None] l f
  show ?thesis by simp
qed

section \<open>download\_file: a second download of the same file\<close>

text \<open>
  Claim C3, as amended. A download without the force flag that finds a file of
  non-zero size at the target path, with the reported content length equal to that
  size, sends the probe and the streaming GET again, reads no body, returns the
  existing path and leaves every file as it is. (The name of the target comes from the
  headers of the GET response, so the request cannot be spared.)
\<close>

theorem download_file_again:
  assumes probe: "http_head E (absolute E url) w = (Some final_url, w1)"
    and fresh: "\<not> is_expired_response final_url (absolute E url)"
    and get: "http_get E True True (absolute E url) w1 = (Some response, w2)"
    and no_force: "\<not> force_download E"
    and existing: "files w (target_path E (absolute E url) path filename response) = Some existing"
    and nonzero: "existing \<noteq> []"
    and reported: "header (headers response) ''content-length'' = Some v"
    and equal: "py_int E v = Some (int (length existing))"
    and mk: "fs_makedirs E (dirname (target_path E (absolute E url) path filename response))"
  shows "fst (download_file E (Suc d) url path filename w)
           = Return (Some (target_path E (absolute E url) path filename response))
         \<and> files (snd (download_file E (Suc d) url path filename w)) = files w
         \<and> reqs (snd (download_file E (Suc d) url path filename w))
           = reqs w @ [Head (absolute E url), Get (absolute E url)]"
proof -
  let ?u = "absolute E url"
  let ?p = "target_path E ?u path filename response"
  let ?fn = "final_filename E ?u response filename"
  define w3 where "w3 = note_extension E ?u response filename (sent [Get ?u] w1)"
  have w1: "w1 = sent [Head ?u] w" using http_head_world[OF probe] .
  have w3: "files w3 = files w" "reqs w3 = reqs w @ [Head ?u, Get ?u]"
    using w1 by (simp_all add: w3_def)
  have fs: "fetch_and_store E ?u path filename w1 = store E ?u response ?fn ?p w3"
    using fetch_and_store_ok[OF get mk] by (simp add: w3_def)
  have "store E ?u response ?fn ?p w3
        = (Return (Some ?p), say (''Skipping existing file: '', [?fn, show_nat (length existing)]) w3)"
    using existing nonzero no_force reported equal w3
    by (simp add: store_def content_length_def)
  then show ?thesis
    using download_file_probe_ok[OF probe fresh, of d path filename] fs w3
    by (simp add: except_Exception_def)
qed

text \<open>
  Claim C3 as stated (at most one GET in total) fails: two downloads of the same file
  to the same path send the GET twice; only the body is read once.
\<close>

theorem download_file_twice_counterexample:
  "fst (download_file (sized_portal ''5'' [''hello'']) (Suc 0) notes_url ''/dl'' None start)
     = Return (Some ''/dl/notes.pdf'')
   \<and> fst (download_file (sized_portal ''5'' [''hello'']) (Suc 0) notes_url ''/dl'' None
          (snd (download_file (sized_portal ''5'' [''hello'']) (Suc 0) notes_url ''/dl'' None start)))
     = Return (Some ''/dl/notes.pdf'')
   \<and> reqs (snd (download_file (sized_portal ''5'' [''hello'']) (Suc 0) notes_url ''/dl'' None
          (snd (download_file (sized_portal ''5'' [''hello'']) (Suc 0) notes_url ''/dl'' None start))))
     = [Head notes_url, Get notes_url, Body notes_url, Head notes_url, Get notes_url]
   \<and> count_list (reqs (snd (download_file (sized_portal ''5'' [''hello'']) (Suc 0) notes_url ''/dl'' None
          (snd (download_file (sized_portal ''5'' [''hello'']) (Suc 0) notes_url ''/dl'' None start)))))
        (Get notes_url) = 2"
  by code_simp

text \<open>The second download of the same file, in the world left by the first.\<close>

theorem download_file_again_witness:
  "fst (download_file (sized_portal ''5'' [''hello'']) (Suc 0) notes_url ''/dl'' None once)
     = Return (Some ''/dl/notes.pdf'')
   \<and> files (snd (download_file (sized_portal ''5'' [''hello'']) (Suc 0) notes_url ''/dl'' None once))
     = files once
   \<and> reqs (snd (download_file (sized_portal ''5'' [''hello'']) (Suc 0) notes_url ''/dl'' None once))
     = [Head notes_url, Get notes_url, Body notes_url, Head notes_url, Get notes_url]"
proof -
  let ?E = "sized_portal ''5'' [''hello'']" and ?r = "sized ''5'' [''hello'']"
  let ?w1 = "sent [Head notes_url] once"
  have f: "\<not> is_expired_response notes_url notes_url" by code_simp
  have 1: "absolute ?E notes_url = notes_url" by code_simp
  have 2: "http_head ?E notes_url once = (Some notes_url, ?w1)"
    by (rule http_head_eq) (simp add: sized_portal_def portal_def)
  have 3: "http_get ?E True True notes_url ?w1 = (Some ?r, sent [Get notes_url] ?w1)"
    by (rule http_get_stream_eq) (simp add: sized_portal_def portal_def)
  have 4: "\<not> force_download ?E" by code_simp
  have 5: "target_path ?E notes_url ''/dl'' None ?r = ''/dl/notes.pdf''" by code_simp
  have 6: "files once ''/dl/notes.pdf'' = Some ''hello''" by code_simp
  have 7: "''hello'' \<noteq> []" by simp
  have 8: "header (headers ?r) ''content-length'' = Some ''5''" by code_simp
  have 9: "py_int ?E ''5'' = Some (int (length ''hello''))" by code_simp
  have 10: "fs_makedirs ?E (dirname ''/dl/notes.pdf'')" by code_simp
  have 11: "reqs once = [Head notes_url, Get notes_url, Body notes_url]" by code_simp
  from download_file_again[where E = ?E and url = notes_url and w = once
      and path = "''/dl''" and filename = None and d = 0,
      unfolded 1, OF 2 f 3 4, unfolded 5, OF 6 7 8 9 10] 11
  show ?thesis by simp
qed

section \<open>What every download leaves alone\<close>

text \<open>
  \<open>download_file\<close> catches every \<open>Error\<close> itself, and neither it nor anything it
  calls logs a message of Method 7.
\<close>

lemma except_Exception_no_Error:
  "(\<And>w. fst (handler w) \<noteq> Raise Error) \<Longrightarrow> fst (except_Exception r handler) \<noteq> Raise Error"
  by (cases r) (auto simp: except_Exception_def split: res.splits exn.splits)

lemma download_file_no_Error: "fst (download_file E d url path filename w) \<noteq> Raise Error"
proof (induction d arbitrary: url w)
  case 0
  show ?case by (simp add: download_file.simps)
next
  case (Suc d)
  let ?u = "absolute E url"
  obtain r w1 where h: "http_head E ?u w = (r, w1)" by (cases "http_head E ?u w")
  show ?case
  proof (cases r)
    case None
    with h show ?thesis by (simp add: download_file.simps)
  next
    case (Some final_url)
    show ?thesis
    proof (cases "is_expired_response final_url ?u")
      case True
      obtain lr w2 where l: "login E (say (''Session expired. Logging in again...'', []) w1) = (lr, w2)"
        by (cases "login E (say (''Session expired. Logging in again...'', []) w1)")
      show ?thesis
      proof (cases lr)
        case (Return ok)
        with h Some True l Suc.IH[of ?u w2] show ?thesis by (simp add: download_file.simps)
      next
        case (Raise e)
        with h Some True l show ?thesis by (cases e) (simp_all add: download_file.simps)
      qed
    next
      case False
      have "fst (except_Exception (fetch_and_store E ?u path filename w1)
                  (\<lambda>w2. (Return None, say (''Error downloading '', [?u]) w2))) \<noteq> Raise Error"
        by (rule except_Exception_no_Error) simp
      with h Some False show ?thesis by (simp add: download_file.simps)
    qed
  qed
qed

lemma except_Exception_download_file [simp]:
  "except_Exception (download_file E d url path filename w) handler
   = download_file E d url path filename w"
proof (cases "download_file E d url path filename w")
  case (Pair r w1)
  with download_file_no_Error[of E d url path filename w] have "r \<noteq> Raise Error" by simp
  with Pair show ?thesis by (cases r; simp add: except_Exception_def split: exn.splits)
qed

lemma pa_say [simp]: "fst m \<noteq> ''Trying pattern: '' \<Longrightarrow> pattern_attempts (say m w) = pattern_attempts w"
  by (simp add: pattern_attempts_def)

lemma pa_sent [simp]: "pattern_attempts (sent rs w) = pattern_attempts w"
  by (simp add: pattern_attempts_def)

lemma pa_files [simp]: "pattern_attempts (w\<lparr>files := f\<rparr>) = pattern_attempts w"
  by (simp add: pattern_attempts_def)

lemma pa_http_head [simp]: "pattern_attempts (snd (http_head E u w)) = pattern_attempts w"
  by (simp add: http_head_def)

lemma pa_http_get [simp]: "pattern_attempts (snd (http_get E s a u w)) = pattern_attempts w"
  by (simp add: http_get_def split: option.splits)

lemma pa_http_post [simp]: "pattern_attempts (snd (http_post E u w)) = pattern_attempts w"
  by (simp add: http_post_def split: option.splits)

lemma pa_login [simp]: "pattern_attempts (snd (login E w)) = pattern_attempts w"
  by (simp add: login_def Let_def split_beta split: option.splits)

lemma pa_transfer [simp]: "pattern_attempts (snd (transfer E u r fn p w)) = pattern_attempts w"
  by (simp add: transfer_def Let_def split: res.splits)

lemma pa_store [simp]: "pattern_attempts (snd (store E u r fn p w)) = pattern_attempts w"
  by (simp add: store_def split: option.splits res.splits)

lemma pa_note_extension [simp]: "pattern_attempts (note_extension E u r f w) = pattern_attempts w"
  by (simp add: note_extension_def)

lemma pa_fetch_and_store [simp]:
  "pattern_attempts (snd (fetch_and_store E u p f w)) = pattern_attempts w"
  by (simp add: fetch_and_store_def Let_def split_beta split: option.splits)

lemma pa_except_Exception:
  "pattern_attempts (snd r) = pa \<Longrightarrow> (\<And>w. pattern_attempts (snd (handler w)) = pattern_attempts w)
   \<Longrightarrow> pattern_attempts (snd (except_Exception r handler)) = pa"
  by (cases r) (auto simp: except_Exception_def split: res.splits exn.splits)

lemma pa_download_file [simp]:
  "pattern_attempts (snd (download_file E d url p f w)) = pattern_attempts w"
proof (induction d arbitrary: url w)
  case 0
  show ?case by (simp add: download_file.simps)
next
  case (Suc d)
  let ?u = "absolute E url"
  obtain r w1 where h: "http_head E ?u w = (r, w1)" by (cases "http_head E ?u w")
  then have w1: "pattern_attempts w1 = pattern_attempts w"
    using pa_http_head[of E ?u w] by simp
  show ?case
  proof (cases r)
    case None
    with h w1 show ?thesis by (simp add: download_file.simps)
  next
    case (Some final_url)
    show ?thesis
    proof (cases "is_expired_response final_url ?u")
      case True
      obtain lr w2 where l: "login E (say (''Session expired. Logging in again...'', []) w1) = (lr, w2)"
        by (cases "login E (say (''Session expired. Logging in again...'', []) w1)")
      then have w2: "pattern_attempts w2 = pattern_attempts w"
        using pa_login[of E "say (''Session expired. Logging in again...'', []) w1"] w1 by simp
      show ?thesis
      proof (cases lr)
        case (Return ok)
        with h Some True l Suc.IH[of ?u w2] w2 show ?thesis by (simp add: download_file.simps)
      next
        case (Raise e)
        with h Some True l w2 show ?thesis by (cases e) (simp_all add: download_file.simps)
      qed
    next
      case False
      have "pattern_attempts (snd (except_Exception (fetch_and_store E ?u p f w1)
                  (\<lambda>w2. (Return None, say (''Error downloading '', [?u]) w2)))) = pattern_attempts w"
        by (rule pa_except_Exception) (simp_all add: w1)
      with h Some False show ?thesis by (simp add: download_file.simps)
    qed
  qed
qed

section \<open>The resource page: Method 7 is never reached\<close>

lemma pa_try_each [simp]:
  "announce \<noteq> ''Trying pattern: ''
   \<Longrightarrow> pattern_attempts (snd (try_each E d announce directory name us w)) = pattern_attempts w"
proof (induction us arbitrary: w)
  case Nil
  show ?case by simp
next
  case (Cons u us)
  obtain r w1 where dl: "download_file E d u directory name (say (announce, [u]) w) = (r, w1)"
    by (cases "download_file E d u directory name (say (announce, [u]) w)")
  then have w1: "pattern_attempts w1 = pattern_attempts w"
    using pa_download_file[of E d u directory name "say (announce, [u]) w"] Cons.prems by simp
  show ?case
  proof (cases r)
    case (Return result)
    with dl w1 Cons.IH[OF Cons.prems, of w1] show ?thesis by simp
  next
    case (Raise e)
    with dl w1 show ?thesis by simp
  qed
qed

lemma pa_no_file_found [simp]:
  "pattern_attempts (snd (no_file_found E url directory name response w)) = pattern_attempts w"
  by (simp add: no_file_found_def Let_def)

lemma pa_method7:
  "\<not> truthy resource_id
   \<Longrightarrow> pattern_attempts (snd (method7 E d url directory name resource_id response doc w))
       = pattern_attempts w"
  by (simp add: method7_def Let_def)

lemma pa_method6:
  "\<not> truthy resource_id
   \<Longrightarrow> pattern_attempts (snd (method6 E d url directory name resource_id response doc w))
       = pattern_attempts w"
  by (simp add: method6_def pa_method7 split: option.splits)

lemma pa_method5:
  "\<not> truthy resource_id
   \<Longrightarrow> pattern_attempts (snd (method5 E d url directory name resource_id response doc w))
       = pattern_attempts w"
  by (simp add: method5_def pa_method6 split: option.splits)

lemma pa_method4 [simp]:
  "pattern_attempts (snd (method4 E d url directory name resource_id response doc w))
   = pattern_attempts w"
  by (simp add: method4_def pa_method5 Let_def)

lemma pa_method3 [simp]:
  "pattern_attempts (snd (method3 E d url directory name resource_id response doc w))
   = pattern_attempts w"
proof -
  obtain r w1 where t: "try_each E d ''Found URL in script: '' directory name (script_urls E doc) w = (r, w1)"
    by (cases "try_each E d ''Found URL in script: '' directory name (script_urls E doc) w")
  then have "pattern_attempts w1 = pattern_attempts w"
    using pa_try_each[of "''Found URL in script: ''" E d directory name "script_urls E doc" w] by simp
  with t show ?thesis by (cases r) (simp_all add: method3_def)
qed

lemma pa_method2 [simp]:
  "pattern_attempts (snd (method2 E d url directory name resource_id response doc w))
   = pattern_attempts w"
  by (simp add: method2_def split: option.splits)

lemma pa_method1 [simp]:
  "pattern_attempts (snd (method1 E d url directory name resource_id response doc w))
   = pattern_attempts w"
  by (simp add: method1_def split: option.splits)

lemma pa_analyse_page [simp]:
  "pattern_attempts (snd (analyse_page E d url directory name resource_id w)) = pattern_attempts w"
proof -
  obtain r w1 where g: "http_get E False True url w = (r, w1)" by (cases "http_get E False True url w")
  then have "pattern_attempts w1 = pattern_attempts w" using pa_http_get[of E False True url w] by simp
  with g show ?thesis by (cases r) (simp_all add: analyse_page_def Let_def)
qed

lemma pa_direct_probe [simp]:
  "pattern_attempts (snd (direct_probe E url resource_id w)) = pattern_attempts w"
proof (cases "truthy resource_id \<and> contains ''resource/view.php'' url")
  case False
  then show ?thesis by (auto simp: direct_probe_def)
next
  case True
  let ?d = "base_url E @ ''/mod/resource/view.php?id='' @ the resource_id @ ''&redirect=1''"
  let ?w = "say (''Trying direct download URL: '', [?d]) w"
  obtain r w1 where g: "http_get E False False ?d ?w = (r, w1)" by (cases "http_get E False False ?d ?w")
  then have "pattern_attempts w1 = pattern_attempts w" using pa_http_get[of E False False ?d ?w] by simp
  with g True show ?thesis by (cases r) (simp_all add: direct_probe_def Let_def)
qed

lemma pa_resource_page_body [simp]:
  "pattern_attempts (snd (resource_page_body E d url directory name w)) = pattern_attempts w"
proof -
  let ?w = "say (''Fetching resource page: '', [url]) w"
  obtain r w1 where p: "direct_probe E url (query_id E url) ?w = (r, w1)"
    by (cases "direct_probe E url (query_id E url) ?w")
  then have w1: "pattern_attempts w1 = pattern_attempts w"
    using pa_direct_probe[of E url "query_id E url" ?w] by simp
  show ?thesis
  proof (cases r)
    case (Raise e)
    with p w1 show ?thesis by (simp add: resource_page_body_def Let_def)
  next
    case (Return c)
    with p w1 show ?thesis by (cases c) (simp_all add: resource_page_body_def Let_def)
  qed
qed

text \<open>
  Claim C10 (the pattern guesses of Method 7 are unreachable: they need a resource id,
  and with a resource id Method 4 has already returned, whatever its download gave).
  For every input \<open>_process_resource_page\<close> logs no \<open>Trying pattern: ...\<close>, the first
  statement of the loop over the patterns; and Method 4 with a resource id is the
  download of the content endpoint and nothing else.
\<close>

theorem process_resource_page_never_tries_patterns:
  "pattern_attempts (snd (process_resource_page E depth url directory name w)) = pattern_attempts w
   \<and> (truthy resource_id \<longrightarrow>
        method4 E depth u directory name resource_id response doc w1
        = download_file E depth (base_url E @ ''/mod/resource/content.php?id='' @ the resource_id)
            directory name
            (say (''Trying content endpoint: '',
                  [base_url E @ ''/mod/resource/content.php?id='' @ the resource_id]) w1))"
proof
  show "pattern_attempts (snd (process_resource_page E depth url directory name w)) = pattern_attempts w"
    unfolding process_resource_page_def
    by (rule pa_except_Exception) simp_all
  show "truthy resource_id \<longrightarrow>
        method4 E depth u directory name resource_id response doc w1
        = download_file E depth (base_url E @ ''/mod/resource/content.php?id='' @ the resource_id)
            directory name
            (say (''Trying content endpoint: '',
                  [base_url E @ ''/mod/resource/content.php?id='' @ the resource_id]) w1)"
    by (simp add: method4_def Let_def)
qed

text \<open>
  A page with a course module id and a resource id, where Method 7 would have both its
  values: no pattern is tried, and Method 4 is the download of the content endpoint,
  which fails here.
\<close>

theorem process_resource_page_never_tries_patterns_witness:
  "find_cmid cmid_only (page ''resource page'') = Some ''7''
   \<and> query_id (resource_portal cmid_only None) view_url = Some ''42''
   \<and> pattern_attempts (snd (process_resource_page (resource_portal cmid_only None) (Suc 0) view_url ''/dl''
            (Some ''Notes'') start)) = []
   \<and> method4 (resource_portal cmid_only None) (Suc 0) view_url ''/dl'' (Some ''Notes'') (Some ''42'')
        (page ''resource page'') cmid_only start
      = download_file (resource_portal cmid_only None) (Suc 0) content_url ''/dl'' (Some ''Notes'')
          (say (''Trying content endpoint: '', [content_url]) start)
   \<and> fst (download_file (resource_portal cmid_only None) (Suc 0) content_url ''/dl'' (Some ''Notes'')
          (say (''Trying content endpoint: '', [content_url]) start)) = Return None"
proof -
  let ?E = "resource_portal cmid_only None"
  have c: "find_cmid cmid_only (page ''resource page'') = Some ''7''" by code_simp
  have q: "query_id ?E view_url = Some ''42''" by code_simp
  have p: "pattern_attempts start = []" by code_simp
  have t: "truthy (Some ''42'')" by code_simp
  have b: "base_url ?E @ ''/mod/resource/content.php?id='' @ the (Some ''42'') = content_url"
    by code_simp
  have r: "fst (download_file ?E (Suc 0) content_url ''/dl'' (Some ''Notes'')
          (say (''Trying content endpoint: '', [content_url]) start)) = Return None" by code_simp
  from process_resource_page_never_tries_patterns[where E = ?E and depth = "Suc 0" and url = view_url
         and directory = "''/dl''" and name = "Some ''Notes''" and w = start
         and resource_id = "Some ''42''" and u = view_url and response = "page ''resource page''"
         and doc = cmid_only and ?w1.0 = start] c q p t b r
  show ?thesis by simp
qed

section \<open>The resource page: the chain of methods\<close>



lemma except_Exception_Return [simp]: "except_Exception (Return r, w) handler = (Return r, w)"
  by (simp add: except_Exception_def)







section \<open>Where errors are caught\<close>
















end
